theory Spec2Isabelle
  imports Main "HOL-Library.Log_Nat" "HOL-Library.Multiset"
begin

section \<open>Python values\<close>

text \<open>
  Python exceptions are values: a function that can raise returns \<open>error + 'a\<close>, with
  \<open>Inl\<close> for the exception.
\<close>

datatype error = ValueError | TypeError | ZeroDivisionError

text \<open>
  A Python \<open>str\<close> is a \<open>string\<close>; a \<open>char\<close> stands for the code point of the same
  number, so the model covers the strings over the code points 0 to 255. On these,
  \<open>str.isspace\<close> holds for the code points listed in \<open>py_isspace\<close>, and \<open>str.lower\<close>
  moves A to Z and the capital letters of the upper half (192 to 222 without the
  multiplication sign 215) up by 32.
\<close>

definition py_isspace :: "char \<Rightarrow> bool" where
  "py_isspace c = (of_char c \<in> {9, 10, 11, 12, 13, 28, 29, 30, 31, 32, 133, 160 :: nat})"

definition py_isupper :: "char \<Rightarrow> bool" where
  "py_isupper c =
     (let n = of_char c :: nat
      in (65 \<le> n \<and> n \<le> 90) \<or> (192 \<le> n \<and> n \<le> 222 \<and> n \<noteq> 215))"

definition lower_char :: "char \<Rightarrow> char" where
  "lower_char c = (if py_isupper c then char_of (of_char c + (32 :: nat)) else c)"

definition py_lower :: "string \<Rightarrow> string" where
  "py_lower s = map lower_char s"

definition py_lstrip :: "string \<Rightarrow> string" where
  "py_lstrip s = dropWhile py_isspace s"

definition py_rstrip :: "string \<Rightarrow> string" where
  "py_rstrip s = rev (dropWhile py_isspace (rev s))"

definition py_strip :: "string \<Rightarrow> string" where
  "py_strip s = py_rstrip (py_lstrip s)"

text \<open>\<open>sub in s\<close> on strings: \<open>sub\<close> occurs in \<open>s\<close> as a contiguous block.\<close>

fun py_in :: "string \<Rightarrow> string \<Rightarrow> bool" where
  "py_in sub [] = (sub = [])"
| "py_in sub (c # cs) = (take (length sub) (c # cs) = sub \<or> py_in sub cs)"

text \<open>
  \<open>s.replace(old, '')\<close> for a non-empty \<open>old\<close>: the occurrences of \<open>old\<close> are removed
  from left to right, without overlap.
\<close>

fun py_remove :: "string \<Rightarrow> string \<Rightarrow> string" where
  "py_remove old [] = []"
| "py_remove old (c # cs) =
     (if old \<noteq> [] \<and> take (length old) (c # cs) = old
      then py_remove old (drop (length old - 1) cs)
      else c # py_remove old cs)"

text \<open>The ASCII letters, and the class \<open>\d\<close> of a \<open>str\<close> pattern on the code points 0 to 255.\<close>

definition ascii_letter :: "char \<Rightarrow> bool" where
  "ascii_letter c =
     (let n = of_char c :: nat in (65 \<le> n \<and> n \<le> 90) \<or> (97 \<le> n \<and> n \<le> 122))"

definition re_digit :: "char \<Rightarrow> bool" where
  "re_digit c = (48 \<le> (of_char c :: nat) \<and> (of_char c :: nat) \<le> 57)"

subsection \<open>Floats\<close>

text \<open>
  A Python \<open>float\<close> is an IEEE 754 double. \<open>Fin m e\<close> is the finite double of value
  \<open>m * 2 ^ e\<close>, in the one form a double has: zero is \<open>Fin 0 0\<close> (the two zeros are one
  value, as they are for \<open>==\<close>); a normal number has \<open>2 ^ 52 \<le> \<bar>m\<bar> < 2 ^ 53\<close> and
  \<open>- 1074 \<le> e \<le> 971\<close>; a subnormal number has \<open>\<bar>m\<bar> < 2 ^ 52\<close> and \<open>e = - 1074\<close>.
\<close>

datatype pyfloat = Fin int int | PInf | NInf | NaN

text \<open>
  Rounding to nearest, ties to even. \<open>round_half_even_div p q\<close> is the integer nearest
  to \<open>p / q\<close> for \<open>0 \<le> p\<close> and \<open>0 < q\<close>; \<open>floor_log2_frac p q\<close> is the exponent of the
  highest power of two not above \<open>p / q\<close>, for \<open>0 < p\<close> and \<open>0 < q\<close>;
  \<open>round_to_double p q\<close> is the double nearest to \<open>p / q\<close>, for \<open>0 < q\<close>, an infinity where
  the rounded value is beyond the largest double.
\<close>

definition round_half_even_div :: "int \<Rightarrow> int \<Rightarrow> int" where
  "round_half_even_div p q =
     (let f = p div q;
          r = p mod q
      in if 2 * r < q then f else if q < 2 * r then f + 1 else if even f then f else f + 1)"

definition floor_log2_frac :: "int \<Rightarrow> int \<Rightarrow> int" where
  "floor_log2_frac p q =
     (let d = bitlen p - bitlen q
      in if (if 0 \<le> d then q * 2 ^ nat d \<le> p else q \<le> p * 2 ^ nat (- d)) then d else d - 1)"

definition round_to_double :: "int \<Rightarrow> int \<Rightarrow> pyfloat" where
  "round_to_double p q =
     (if p = 0 then Fin 0 0
      else
        let a = \<bar>p\<bar>;
            e = max (floor_log2_frac a q - 52) (- 1074);
            m = (if 0 \<le> e then round_half_even_div a (q * 2 ^ nat e)
                 else round_half_even_div (a * 2 ^ nat (- e)) q);
            (m', e') = (if m = 2 ^ 53 then (2 ^ 52, e + 1) else (m, e))
        in if m' = 0 then Fin 0 0
           else if 971 < e' then (if 0 < p then PInf else NInf)
           else Fin (if 0 < p then m' else - m') e')"

text \<open>
  The double a decimal literal denotes, and the double \<open>float(s)\<close> returns for such a
  literal: \<open>double_of_decimal d k\<close> is the double nearest to \<open>d / 10 ^ k\<close>, so 74.57 is
  \<open>double_of_decimal 7457 2\<close>.
\<close>

definition double_of_decimal :: "int \<Rightarrow> nat \<Rightarrow> pyfloat" where
  "double_of_decimal d k = round_to_double d (10 ^ k)"

text \<open>
  The value of a finite double as a fraction with a positive denominator, and the sign
  of a float that is not a NaN.
\<close>

definition double_num :: "int \<Rightarrow> int \<Rightarrow> int" where
  "double_num m e = (if 0 \<le> e then m * 2 ^ nat e else m)"

definition double_den :: "int \<Rightarrow> int" where
  "double_den e = (if 0 \<le> e then 1 else 2 ^ nat (- e))"

definition float_sign :: "pyfloat \<Rightarrow> int" where
  "float_sign x = (case x of Fin m e \<Rightarrow> sgn m | PInf \<Rightarrow> 1 | NInf \<Rightarrow> - 1 | NaN \<Rightarrow> 0)"

text \<open>
  The operations of Python on floats that the sources use: \<open>*\<close>, \<open>/\<close> (which raises
  \<open>ZeroDivisionError\<close> on a zero divisor), \<open>+\<close>, \<open><=\<close>, and \<open>round(x, ndigits)\<close> with
  \<open>ndigits\<close> 1 or 2, which rounds the exact value of \<open>x\<close> to that many decimals, ties to
  even, and returns the double nearest to the decimal.
\<close>

definition float_mul :: "pyfloat \<Rightarrow> pyfloat \<Rightarrow> pyfloat" where
  "float_mul x y =
     (if x = NaN \<or> y = NaN then NaN
      else case (x, y) of
        (Fin m1 e1, Fin m2 e2) \<Rightarrow>
          round_to_double (double_num (m1 * m2) (e1 + e2)) (double_den (e1 + e2))
      | _ \<Rightarrow>
          (let s = float_sign x * float_sign y
           in if s = 0 then NaN else if 0 < s then PInf else NInf))"

definition float_div :: "pyfloat \<Rightarrow> pyfloat \<Rightarrow> error + pyfloat" where
  "float_div x y =
     (if (case y of Fin m e \<Rightarrow> m = 0 | _ \<Rightarrow> False) then Inl ZeroDivisionError
      else if x = NaN \<or> y = NaN then Inr NaN
      else case (x, y) of
        (Fin m1 e1, Fin m2 e2) \<Rightarrow>
          Inr (round_to_double (sgn m2 * double_num m1 (e1 - e2))
                 (\<bar>m2\<bar> * double_den (e1 - e2)))
      | (Fin m1 e1, _) \<Rightarrow> Inr (Fin 0 0)
      | (_, Fin m2 e2) \<Rightarrow> Inr (if 0 < float_sign x * sgn m2 then PInf else NInf)
      | _ \<Rightarrow> Inr NaN)"

definition float_add :: "pyfloat \<Rightarrow> pyfloat \<Rightarrow> pyfloat" where
  "float_add x y =
     (if x = NaN \<or> y = NaN then NaN
      else case (x, y) of
        (Fin m1 e1, Fin m2 e2) \<Rightarrow>
          (let e = min e1 e2
           in round_to_double
                (double_num (m1 * 2 ^ nat (e1 - e) + m2 * 2 ^ nat (e2 - e)) e) (double_den e))
      | (Fin m1 e1, _) \<Rightarrow> y
      | (_, Fin m2 e2) \<Rightarrow> x
      | _ \<Rightarrow> if x = y then x else NaN)"

definition float_le :: "pyfloat \<Rightarrow> pyfloat \<Rightarrow> bool" where
  "float_le x y =
     (if x = NaN \<or> y = NaN then False
      else case (x, y) of
        (Fin m1 e1, Fin m2 e2) \<Rightarrow>
          (let e = min e1 e2 in m1 * 2 ^ nat (e1 - e) \<le> m2 * 2 ^ nat (e2 - e))
      | (NInf, _) \<Rightarrow> True
      | (_, PInf) \<Rightarrow> True
      | _ \<Rightarrow> False)"

definition py_round :: "pyfloat \<Rightarrow> nat \<Rightarrow> pyfloat" where
  "py_round x ndigits =
     (case x of
        Fin m e \<Rightarrow>
          (let n = round_half_even_div (double_num \<bar>m\<bar> e * 10 ^ ndigits) (double_den e)
           in round_to_double (if 0 \<le> m then n else - n) (10 ^ ndigits))
      | _ \<Rightarrow> x)"

section \<open>The schema (\<open>src/utils/schema.py\<close>)\<close>

text \<open>
  The six specification classes declare only optional fields of type \<open>str\<close>, \<open>float\<close> or
  \<open>int\<close>. \<open>_merge_specs\<close> treats them generically, through \<open>model_fields\<close>, \<open>getattr\<close> and
  \<open>setattr\<close>, so an object of any of them is its list of declared field names and its
  attribute values; \<open>None\<close> is Python's \<open>None\<close>.
\<close>

datatype pyval = VStr string | VFloat pyfloat | VInt int

record spec_obj =
  model_fields :: "string list"
  attrs :: "string \<Rightarrow> pyval option"

definition EngineSpecs_fields :: "string list" where
  "EngineSpecs_fields =
     [''type'', ''displacement_cc'', ''bore_mm'', ''stroke_mm'', ''compression_ratio'',
      ''max_power_kw'', ''max_power_rpm'', ''max_torque_nm'', ''max_torque_rpm'',
      ''fuel_system'', ''ignition'', ''starter'', ''lubrication'']"

definition TransmissionSpecs_fields :: "string list" where
  "TransmissionSpecs_fields = [''type'', ''clutch'', ''final_drive'']"

definition ChassisSpecs_fields :: "string list" where
  "ChassisSpecs_fields =
     [''frame_type'', ''front_suspension'', ''rear_suspension'', ''front_brake'',
      ''rear_brake'', ''front_tire'', ''rear_tire'']"

definition DimensionSpecs_fields :: "string list" where
  "DimensionSpecs_fields =
     [''length_mm'', ''width_mm'', ''height_mm'', ''wheelbase_mm'', ''ground_clearance_mm'',
      ''seat_height_mm'', ''dry_weight_kg'', ''wet_weight_kg'', ''fuel_capacity_liters'']"

definition PerformanceSpecs_fields :: "string list" where
  "PerformanceSpecs_fields =
     [''top_speed_kmh'', ''acceleration_0_100_kmh_sec'',
      ''fuel_consumption_liters_per_100km'']"

definition ElectricalSpecs_fields :: "string list" where
  "ElectricalSpecs_fields = [''battery_voltage'', ''alternator'', ''headlight'', ''tail_light'']"

text \<open>
  The records below are parametrised by what stands for a specification object: the
  object itself (\<open>spec_obj\<close>) where only the value of a record matters, its address in
  a store where the identity of the object matters.
\<close>

record 'o BikeSpecifications =
  engine :: "'o option"
  transmission :: "'o option"
  chassis :: "'o option"
  dimensions :: "'o option"
  performance :: "'o option"
  electrical :: "'o option"

record PriceInfo =
  currency :: string
  amount :: pyfloat
  region :: "string option"

record ImageInfo =
  url :: string
  local_path :: "string option"
  alt_text :: "string option"
  image_type :: "string option"
  hash :: "string option"

text \<open>\<open>extraction_timestamp\<close> is a \<open>datetime\<close>; the merger only carries it along.\<close>

record 'o BikeData =
  manufacturer :: string
  model :: string
  year :: int
  variant :: "string option"
  specifications :: "'o BikeSpecifications"
  features :: "string list"
  description :: "string option"
  content_sections :: "(string \<times> string) list option"
  colors :: "string list"
  price :: "PriceInfo option"
  images :: "ImageInfo list"
  source_urls :: "string list"
  extraction_timestamp :: int

text \<open>
  The constructors with the defaults of the schema: every field of a specification object
  is \<open>None\<close>, every group of \<open>BikeSpecifications\<close> is a fresh object of its class, and a
  \<open>BikeData\<close> built from the three required fields has empty lists and no description.
\<close>

definition new_spec_obj :: "string list \<Rightarrow> spec_obj" where
  "new_spec_obj names = \<lparr>model_fields = names, attrs = (\<lambda>_. None)\<rparr>"

definition new_BikeSpecifications :: "spec_obj BikeSpecifications" where
  "new_BikeSpecifications =
     \<lparr>engine = Some (new_spec_obj EngineSpecs_fields),
      transmission = Some (new_spec_obj TransmissionSpecs_fields),
      chassis = Some (new_spec_obj ChassisSpecs_fields),
      dimensions = Some (new_spec_obj DimensionSpecs_fields),
      performance = Some (new_spec_obj PerformanceSpecs_fields),
      electrical = Some (new_spec_obj ElectricalSpecs_fields)\<rparr>"

definition new_BikeData :: "string \<Rightarrow> string \<Rightarrow> int \<Rightarrow> int \<Rightarrow> spec_obj BikeData" where
  "new_BikeData mf md yr now =
     \<lparr>manufacturer = mf, model = md, year = yr, variant = None,
      specifications = new_BikeSpecifications, features = [], description = None,
      content_sections = None, colors = [], price = None, images = [], source_urls = [],
      extraction_timestamp = now\<rparr>"

subsection \<open>Vocabulary for the statements about the merger\<close>

text \<open>
  The six groups of \<open>BikeSpecifications\<close>, the attribute that holds each, and the class
  of the objects it holds.
\<close>

datatype spec_group = Engine | Transmission | Chassis | Dimensions | Performance | Electrical

fun group_of :: "spec_group \<Rightarrow> 'o BikeSpecifications \<Rightarrow> 'o option" where
  "group_of Engine = engine"
| "group_of Transmission = transmission"
| "group_of Chassis = chassis"
| "group_of Dimensions = dimensions"
| "group_of Performance = performance"
| "group_of Electrical = electrical"

fun group_fields :: "spec_group \<Rightarrow> string list" where
  "group_fields Engine = EngineSpecs_fields"
| "group_fields Transmission = TransmissionSpecs_fields"
| "group_fields Chassis = ChassisSpecs_fields"
| "group_fields Dimensions = DimensionSpecs_fields"
| "group_fields Performance = PerformanceSpecs_fields"
| "group_fields Electrical = ElectricalSpecs_fields"

text \<open>
  The value of field \<open>f\<close> in a group: \<open>None\<close> when the field is \<open>None\<close> and when the
  whole group is \<open>None\<close>. A record sets the field when this value is not \<open>None\<close>.
\<close>

definition field_value :: "spec_obj option \<Rightarrow> string \<Rightarrow> pyval option" where
  "field_value spec f = (case spec of None \<Rightarrow> None | Some s \<Rightarrow> attrs s f)"

definition record_field :: "spec_group \<Rightarrow> string \<Rightarrow> spec_obj BikeData \<Rightarrow> pyval option" where
  "record_field g f bd = field_value (group_of g (specifications bd)) f"

text \<open>
  The typing of the schema: a group that is present holds an object of the class of that
  group, so its \<open>model_fields\<close> are the fields the class declares.
\<close>

definition group_typed :: "spec_group \<Rightarrow> spec_obj BikeData \<Rightarrow> bool" where
  "group_typed g bd =
     (case group_of g (specifications bd) of
        None \<Rightarrow> True
      | Some s \<Rightarrow> model_fields s = group_fields g)"

section \<open>The record merger (\<open>src/processors/merger.py\<close>)\<close>

text \<open>
  An element of \<open>pages_data\<close> is a dict with the keys \<open>bike_data\<close> and \<open>page_type\<close>;
  \<open>page_type\<close> is read with \<open>get\<close>, so it may be absent (\<open>None\<close> here).
\<close>

record 'o page_info =
  bike_data :: "'o BikeData"
  page_type :: "string option"

definition page_type_priority :: "(string \<times> int) list" where
  "page_type_priority =
     [(''specs'', 3), (''main'', 2), (''features'', 1), (''gallery'', 0), (''other'', 0)]"

text \<open>The sort key: \<open>self.page_type_priority.get(x.get('page_type', 'other'), 0)\<close>.\<close>

definition priority_key :: "'o page_info \<Rightarrow> int" where
  "priority_key x =
     (case map_of page_type_priority (case page_type x of None \<Rightarrow> ''other'' | Some t \<Rightarrow> t) of
        None \<Rightarrow> 0
      | Some p \<Rightarrow> p)"

text \<open>
  \<open>pages_data.sort(key=..., reverse=True)\<close>: descending by key, and stable (records of
  equal key keep their order), which is what the insertion sort \<open>sort_key\<close> does on the
  negated key.
\<close>

definition sort_pages :: "'o page_info list \<Rightarrow> 'o page_info list" where
  "sort_pages pages_data = sort_key (\<lambda>x. - priority_key x) pages_data"

text \<open>
  The body of the loop of \<open>_merge_specs\<close> over \<open>spec1.model_fields.keys()\<close>, then the
  function itself. An object of a pydantic model is truthy, so \<open>not spec1\<close> holds exactly
  for \<open>None\<close>.
\<close>

definition merge_field :: "spec_obj \<Rightarrow> string \<Rightarrow> spec_obj \<Rightarrow> spec_obj" where
  "merge_field spec2 field_name spec1 =
     (let value1 = attrs spec1 field_name;
          value2 = attrs spec2 field_name
      in if value1 = None \<and> value2 \<noteq> None
         then spec1\<lparr>attrs := (attrs spec1)(field_name := value2)\<rparr>
         else spec1)"

definition merge_specs :: "spec_obj option \<Rightarrow> spec_obj option \<Rightarrow> string \<Rightarrow> spec_obj option" where
  "merge_specs spec1 spec2 page_type2 =
     (case spec1 of
        None \<Rightarrow> spec2
      | Some s1 \<Rightarrow>
          (case spec2 of
             None \<Rightarrow> spec1
           | Some s2 \<Rightarrow> Some (fold (merge_field s2) (model_fields s1) s1)))"

text \<open>
  \<open>combine_features\<close>: the loop over all features with its \<open>seen\<close> set and its
  \<open>unique_features\<close> list.
\<close>

fun combine_features_loop :: "string list \<Rightarrow> string set \<Rightarrow> string list \<Rightarrow> string list" where
  "combine_features_loop [] seen unique_features = unique_features"
| "combine_features_loop (feature # rest) seen unique_features =
     (let feature_clean = py_strip feature
      in if feature_clean \<noteq> [] \<and> feature_clean \<notin> seen
         then combine_features_loop rest (insert feature_clean seen)
                (unique_features @ [feature_clean])
         else combine_features_loop rest seen unique_features)"

definition combine_features :: "string list list \<Rightarrow> string list" where
  "combine_features features_lists = combine_features_loop (concat features_lists) {} []"

text \<open>
  \<open>list(set(xs))\<close>: the elements of \<open>xs\<close> once each, in the iteration order of a Python
  set, which the language leaves open. The order is a parameter \<open>set_order\<close> of the model;
  where it does not return an enumeration of the set, first-occurrence order is used.
\<close>

definition py_list_set :: "(string list \<Rightarrow> string list) \<Rightarrow> string list \<Rightarrow> string list" where
  "py_list_set set_order xs =
     (if set (set_order xs) = set xs \<and> distinct (set_order xs)
      then set_order xs else remdups xs)"

text \<open>The final loop of \<open>merge_bike_data\<close>: images once per URL, the first one kept.\<close>

fun unique_images_loop :: "ImageInfo list \<Rightarrow> string set \<Rightarrow> ImageInfo list \<Rightarrow> ImageInfo list" where
  "unique_images_loop [] seen_urls unique_images = unique_images"
| "unique_images_loop (img # rest) seen_urls unique_images =
     (if url img \<notin> seen_urls
      then unique_images_loop rest (insert (url img) seen_urls) (unique_images @ [img])
      else unique_images_loop rest seen_urls unique_images)"

text \<open>
  The six calls of \<open>_merge_specs\<close> of one iteration, on the specifications of the
  accumulator and of the page.
\<close>

definition merge_specifications ::
  "spec_obj BikeSpecifications \<Rightarrow> spec_obj BikeSpecifications \<Rightarrow> string \<Rightarrow>
     spec_obj BikeSpecifications" where
  "merge_specifications s1 s2 pt =
     \<lparr>engine = merge_specs (engine s1) (engine s2) pt,
      transmission = merge_specs (transmission s1) (transmission s2) pt,
      chassis = merge_specs (chassis s1) (chassis s2) pt,
      dimensions = merge_specs (dimensions s1) (dimensions s2) pt,
      performance = merge_specs (performance s1) (performance s2) pt,
      electrical = merge_specs (electrical s1) (electrical s2) pt\<rparr>"

text \<open>
  The description step: \<open>not merged.description\<close> holds for \<open>None\<close> and for the empty
  string; otherwise \<open>len(bike_data.description)\<close> is evaluated, which raises \<open>TypeError\<close>
  on \<open>None\<close>.
\<close>

definition merge_description :: "string option \<Rightarrow> string option \<Rightarrow> error + string option" where
  "merge_description merged_d page_d =
     (case merged_d of
        None \<Rightarrow> Inr page_d
      | Some m \<Rightarrow>
          if m = [] then Inr page_d
          else (case page_d of
                  None \<Rightarrow> Inl TypeError
                | Some d \<Rightarrow> if length d > length m then Inr page_d else Inr merged_d))"

text \<open>One iteration of the loop \<open>for page_info in pages_data[1:]\<close>.\<close>

definition merge_page ::
  "(string list \<Rightarrow> string list) \<Rightarrow> spec_obj BikeData \<Rightarrow> spec_obj page_info \<Rightarrow>
     error + spec_obj BikeData" where
  "merge_page set_order merged page =
     (let bd = bike_data page;
          pt = (case page_type page of None \<Rightarrow> ''other'' | Some t \<Rightarrow> t);
          merged1 = merged\<lparr>specifications :=
                      merge_specifications (specifications merged) (specifications bd) pt\<rparr>;
          merged2 = merged1\<lparr>features := combine_features [features merged1, features bd]\<rparr>
      in case merge_description (description merged2) (description bd) of
           Inl e \<Rightarrow> Inl e
         | Inr d \<Rightarrow>
             Inr (merged2\<lparr>description := d,
                          colors := py_list_set set_order (colors merged2 @ colors bd),
                          images := images merged2 @ images bd,
                          source_urls := source_urls merged2 @ source_urls bd\<rparr>))"

fun merge_pages ::
  "(string list \<Rightarrow> string list) \<Rightarrow> spec_obj BikeData \<Rightarrow> spec_obj page_info list \<Rightarrow>
     error + spec_obj BikeData" where
  "merge_pages set_order merged [] = Inr merged"
| "merge_pages set_order merged (page # rest) =
     (case merge_page set_order merged page of
        Inl e \<Rightarrow> Inl e
      | Inr merged' \<Rightarrow> merge_pages set_order merged' rest)"

text \<open>
  \<open>merge_bike_data\<close>. The result is the value of the returned record; the copy that
  \<open>model_copy(deep=True)\<close> takes has the value of its original.
\<close>

definition merge_bike_data ::
  "(string list \<Rightarrow> string list) \<Rightarrow> spec_obj page_info list \<Rightarrow> error + spec_obj BikeData" where
  "merge_bike_data set_order pages_data =
     (case pages_data of
        [] \<Rightarrow> Inl ValueError
      | [page] \<Rightarrow> Inr (bike_data page)
      | _ \<Rightarrow>
          (case sort_pages pages_data of
             [] \<Rightarrow> Inl ValueError
           | first_page # rest \<Rightarrow>
               (case merge_pages set_order (bike_data first_page) rest of
                  Inl e \<Rightarrow> Inl e
                | Inr merged \<Rightarrow>
                    Inr (merged\<lparr>source_urls := py_list_set set_order (source_urls merged),
                                images := unique_images_loop (images merged) {} []\<rparr>))))"

subsection \<open>The merger on a store of specification objects\<close>

text \<open>
  \<open>_merge_specs\<close> writes with \<open>setattr\<close> into the object \<open>spec1\<close> it is given and returns
  a reference, so which objects a merge modifies depends on which references are shared.
  For that question the specification objects live in a store, and the records hold
  their addresses. Addresses from \<open>next_addr\<close> on are free. Every other write of
  \<open>merge_bike_data\<close> rebinds an attribute of the copy \<open>merged\<close> or extends a list the
  copy owns; \<open>pages_data.sort\<close> reorders the list of the caller, which is returned as
  the second component.
\<close>

type_synonym addr = nat

record store =
  objs :: "addr \<Rightarrow> spec_obj"
  next_addr :: addr

definition alloc :: "spec_obj \<Rightarrow> store \<Rightarrow> addr \<times> store" where
  "alloc obj \<sigma> =
     (next_addr \<sigma>, \<lparr>objs = (objs \<sigma>)(next_addr \<sigma> := obj), next_addr = next_addr \<sigma> + 1\<rparr>)"

text \<open>
  \<open>model_copy(deep=True)\<close> copies the six groups in the order of their declaration, with
  the memo of \<open>copy.deepcopy\<close>: an object met twice is copied once.
\<close>

definition copy_group ::
  "addr option \<Rightarrow> (addr \<times> addr) list \<times> store \<Rightarrow> addr option \<times> (addr \<times> addr) list \<times> store" where
  "copy_group ref ms =
     (case ref of
        None \<Rightarrow> (None, ms)
      | Some a \<Rightarrow>
          (case map_of (fst ms) a of
             Some a' \<Rightarrow> (Some a', ms)
           | None \<Rightarrow>
               (let (a', \<sigma>') = alloc (objs (snd ms) a) (snd ms)
                in (Some a', (a, a') # fst ms, \<sigma>'))))"

definition model_copy_deep :: "addr BikeData \<Rightarrow> store \<Rightarrow> addr BikeData \<times> store" where
  "model_copy_deep bd \<sigma> =
     (let sp = specifications bd;
          (e, ms1) = copy_group (engine sp) ([], \<sigma>);
          (t, ms2) = copy_group (transmission sp) ms1;
          (c, ms3) = copy_group (chassis sp) ms2;
          (d, ms4) = copy_group (dimensions sp) ms3;
          (p, ms5) = copy_group (performance sp) ms4;
          (l, ms6) = copy_group (electrical sp) ms5
      in (bd\<lparr>specifications :=
               \<lparr>engine = e, transmission = t, chassis = c, dimensions = d,
                performance = p, electrical = l\<rparr>\<rparr>,
          snd ms6))"

text \<open>
  The body of the loop of \<open>_merge_specs\<close>, \<open>_merge_specs\<close> and the functions above it, as
  in the value model, now reading and writing the store.
\<close>

definition merge_field_st :: "addr \<Rightarrow> addr \<Rightarrow> string \<Rightarrow> store \<Rightarrow> store" where
  "merge_field_st spec1 spec2 field_name \<sigma> =
     (let value1 = attrs (objs \<sigma> spec1) field_name;
          value2 = attrs (objs \<sigma> spec2) field_name
      in if value1 = None \<and> value2 \<noteq> None
         then \<sigma>\<lparr>objs := (objs \<sigma>)
                (spec1 := (objs \<sigma> spec1)
                   \<lparr>attrs := (attrs (objs \<sigma> spec1))(field_name := value2)\<rparr>)\<rparr>
         else \<sigma>)"

definition merge_specs_st ::
  "addr option \<Rightarrow> addr option \<Rightarrow> string \<Rightarrow> store \<Rightarrow> addr option \<times> store" where
  "merge_specs_st spec1 spec2 page_type2 \<sigma> =
     (case spec1 of
        None \<Rightarrow> (spec2, \<sigma>)
      | Some a1 \<Rightarrow>
          (case spec2 of
             None \<Rightarrow> (spec1, \<sigma>)
           | Some a2 \<Rightarrow>
               (spec1, fold (merge_field_st a1 a2) (model_fields (objs \<sigma> a1)) \<sigma>)))"

definition merge_specifications_st ::
  "addr BikeSpecifications \<Rightarrow> addr BikeSpecifications \<Rightarrow> string \<Rightarrow> store \<Rightarrow>
     addr BikeSpecifications \<times> store" where
  "merge_specifications_st s1 s2 pt \<sigma> =
     (let (e, \<sigma>1) = merge_specs_st (engine s1) (engine s2) pt \<sigma>;
          (t, \<sigma>2) = merge_specs_st (transmission s1) (transmission s2) pt \<sigma>1;
          (c, \<sigma>3) = merge_specs_st (chassis s1) (chassis s2) pt \<sigma>2;
          (d, \<sigma>4) = merge_specs_st (dimensions s1) (dimensions s2) pt \<sigma>3;
          (p, \<sigma>5) = merge_specs_st (performance s1) (performance s2) pt \<sigma>4;
          (l, \<sigma>6) = merge_specs_st (electrical s1) (electrical s2) pt \<sigma>5
      in (\<lparr>engine = e, transmission = t, chassis = c, dimensions = d,
           performance = p, electrical = l\<rparr>, \<sigma>6))"

definition merge_page_st ::
  "(string list \<Rightarrow> string list) \<Rightarrow> addr BikeData \<Rightarrow> addr page_info \<Rightarrow> store \<Rightarrow>
     (error + addr BikeData) \<times> store" where
  "merge_page_st set_order merged page \<sigma> =
     (let bd = bike_data page;
          pt = (case page_type page of None \<Rightarrow> ''other'' | Some t \<Rightarrow> t);
          (sp, \<sigma>') = merge_specifications_st (specifications merged) (specifications bd) pt \<sigma>;
          merged1 = merged\<lparr>specifications := sp\<rparr>;
          merged2 = merged1\<lparr>features := combine_features [features merged1, features bd]\<rparr>
      in case merge_description (description merged2) (description bd) of
           Inl e \<Rightarrow> (Inl e, \<sigma>')
         | Inr d \<Rightarrow>
             (Inr (merged2\<lparr>description := d,
                           colors := py_list_set set_order (colors merged2 @ colors bd),
                           images := images merged2 @ images bd,
                           source_urls := source_urls merged2 @ source_urls bd\<rparr>), \<sigma>'))"

fun merge_pages_st ::
  "(string list \<Rightarrow> string list) \<Rightarrow> addr BikeData \<Rightarrow> addr page_info list \<Rightarrow> store \<Rightarrow>
     (error + addr BikeData) \<times> store" where
  "merge_pages_st set_order merged [] \<sigma> = (Inr merged, \<sigma>)"
| "merge_pages_st set_order merged (page # rest) \<sigma> =
     (case merge_page_st set_order merged page \<sigma> of
        (Inl e, \<sigma>') \<Rightarrow> (Inl e, \<sigma>')
      | (Inr merged', \<sigma>') \<Rightarrow> merge_pages_st set_order merged' rest \<sigma>')"

definition merge_bike_data_st ::
  "(string list \<Rightarrow> string list) \<Rightarrow> addr page_info list \<Rightarrow> store \<Rightarrow>
     (error + addr BikeData) \<times> addr page_info list \<times> store" where
  "merge_bike_data_st set_order pages_data \<sigma> =
     (case pages_data of
        [] \<Rightarrow> (Inl ValueError, pages_data, \<sigma>)
      | [page] \<Rightarrow> (Inr (bike_data page), pages_data, \<sigma>)
      | _ \<Rightarrow>
          (case sort_pages pages_data of
             [] \<Rightarrow> (Inl ValueError, pages_data, \<sigma>)
           | first_page # rest \<Rightarrow>
               (let (merged0, \<sigma>0) = model_copy_deep (bike_data first_page) \<sigma>
                in case merge_pages_st set_order merged0 rest \<sigma>0 of
                     (Inl e, \<sigma>') \<Rightarrow> (Inl e, first_page # rest, \<sigma>')
                   | (Inr merged, \<sigma>') \<Rightarrow>
                       (Inr (merged\<lparr>source_urls := py_list_set set_order (source_urls merged),
                                    images := unique_images_loop (images merged) {} []\<rparr>),
                        first_page # rest, \<sigma>'))))"


text \<open>
  For the statements about the store: every object that existed before address \<open>n\<close> is
  the same in both stores; every group of the specifications refers to an object from
  address \<open>n\<close> on; and the same for the memo and the store during a deep copy.
\<close>

definition kept_below :: "addr \<Rightarrow> store \<Rightarrow> store \<Rightarrow> bool" where
  "kept_below n \<sigma> \<sigma>' = (\<forall>a<n. objs \<sigma>' a = objs \<sigma> a)"

definition all_fresh :: "addr \<Rightarrow> addr BikeSpecifications \<Rightarrow> bool" where
  "all_fresh n sp = (\<forall>g. \<exists>a. group_of g sp = Some a \<and> n \<le> a)"

definition copy_inv :: "addr \<Rightarrow> (addr \<times> addr) list \<times> store \<Rightarrow> bool" where
  "copy_inv n ms = ((\<forall>(x, y)\<in>set (fst ms). n \<le> y) \<and> n \<le> next_addr (snd ms))"


subsection \<open>A sample group\<close>

text \<open>
  A page whose record has the defaults of the schema, an empty description and the given
  \<open>max_power_kw\<close>; the statements below are instantiated on groups of such pages.
\<close>

definition sample_page :: "string \<Rightarrow> pyval option \<Rightarrow> spec_obj page_info" where
  "sample_page pt kw =
     \<lparr>bike_data = (new_BikeData ''Ducati'' ''Monster'' 2024 0)
        \<lparr>specifications := new_BikeSpecifications
           \<lparr>engine := Some ((new_spec_obj EngineSpecs_fields)
                \<lparr>attrs := (\<lambda>_. None)(''max_power_kw'' := kw)\<rparr>)\<rparr>,
         description := Some []\<rparr>,
      page_type = Some pt\<rparr>"


text \<open>
  A page whose record has no group but (possibly) the engine, and a store with two
  engine objects: object 0 with every field \<open>None\<close>, object 1 with a \<open>max_power_kw\<close>.
\<close>

definition ref_page :: "string \<Rightarrow> addr option \<Rightarrow> addr page_info" where
  "ref_page pt e =
     \<lparr>bike_data =
        \<lparr>manufacturer = ''Ducati'', model = ''Monster'', year = 2024, variant = None,
         specifications =
           \<lparr>engine = e, transmission = None, chassis = None, dimensions = None,
            performance = None, electrical = None\<rparr>,
         features = [], description = Some [], content_sections = None, colors = [],
         price = None, images = [], source_urls = [], extraction_timestamp = 0\<rparr>,
      page_type = Some pt\<rparr>"

definition sample_store :: store where
  "sample_store =
     \<lparr>objs = (\<lambda>_. new_spec_obj EngineSpecs_fields)
        (1 := (new_spec_obj EngineSpecs_fields)
                \<lparr>attrs := (\<lambda>_. None)(''max_power_kw'' := Some (VFloat (double_of_decimal 80 0)))\<rparr>),
      next_addr = 2\<rparr>"

section \<open>The page classifier (\<open>src/crawler/classifier.py\<close>)\<close>

text \<open>
  \<open>self.page_type_indicators\<close>, a dict, in its insertion order, which is the order in
  which \<open>items()\<close> yields its entries.
\<close>


definition page_type_indicators :: "(string \<times> string list) list" where
  "page_type_indicators =
     [(''specs'', [''specification'', ''spec'', ''technical'', ''tech-data'']),
      (''gallery'', [''gallery'', ''photos'', ''images'']),
      (''features'', [''features'', ''equipment'', ''technology'']),
      (''insights'', [''insights'', ''insight'']),
      (''stories'', [''stories'', ''story'', ''travel'']),
      (''main'', [''overview'', ''details'', ''home''])]"

text \<open>
  \<open>get_page_type\<close>: the inner loop over the indicators of one page type (true when it
  returns), the outer loop over the table, and the function. \<open>content\<close> may be \<open>None\<close>
  or empty, and then \<open>content_lower\<close> is the empty string.
\<close>

fun indicators_loop :: "string list \<Rightarrow> string \<Rightarrow> string \<Rightarrow> bool" where
  "indicators_loop [] url_lower content_lower = False"
| "indicators_loop (indicator # rest) url_lower content_lower =
     (if py_in indicator url_lower \<or> py_in indicator content_lower then True
      else indicators_loop rest url_lower content_lower)"

fun page_types_loop :: "(string \<times> string list) list \<Rightarrow> string \<Rightarrow> string \<Rightarrow> string" where
  "page_types_loop [] url_lower content_lower = ''main''"
| "page_types_loop ((ptype, indicators) # rest) url_lower content_lower =
     (if indicators_loop indicators url_lower content_lower then ptype
      else page_types_loop rest url_lower content_lower)"

definition get_page_type :: "string \<Rightarrow> string option \<Rightarrow> string" where
  "get_page_type page_url content =
     (let url_lower = py_lower page_url;
          content_lower = (case content of None \<Rightarrow> [] | Some c \<Rightarrow> if c = [] then [] else py_lower c)
      in page_types_loop page_type_indicators url_lower content_lower)"

text \<open>
  For the statement: an entry of the table matches when one of its indicators occurs in
  the lower-cased URL or in the lower-cased content.
\<close>

definition page_type_matches :: "string \<Rightarrow> string \<Rightarrow> string \<times> string list \<Rightarrow> bool" where
  "page_type_matches url_lower content_lower entry =
     (\<exists>indicator\<in>set (snd entry). py_in indicator url_lower \<or> py_in indicator content_lower)"

section \<open>The image downloader (\<open>src/downloaders/image_downloader.py\<close>)\<close>

text \<open>\<open>str(year)\<close> and the format \<open>{index:03d}\<close> of an \<open>int\<close>.\<close>


definition digit_char :: "nat \<Rightarrow> char" where
  "digit_char n = char_of (48 + n)"

function str_nat :: "nat \<Rightarrow> string" where
  "str_nat n = (if n < 10 then [digit_char n] else str_nat (n div 10) @ [digit_char (n mod 10)])"
  by auto
termination by (relation "measure id") auto

declare str_nat.simps [simp del]

definition str_int :: "int \<Rightarrow> string" where
  "str_int i = (if i < 0 then ''-'' @ str_nat (nat (- i)) else str_nat (nat i))"

definition format_03d :: "int \<Rightarrow> string" where
  "format_03d i =
     (let sign = (if i < 0 then ''-'' else []);
          ds = str_nat (nat \<bar>i\<bar>)
      in sign @ replicate (3 - length sign - length ds) CHR ''0'' @ ds)"

text \<open>
  \<open>_sanitize_filename\<close>: \<open>re.sub(r'[^\w\s-]', '', text).strip().replace(' ', '_')\<close>. On
  the code points 0 to 255 the class \<open>\w\<close> of a \<open>str\<close> pattern holds the characters
  listed in \<open>re_word\<close>, and \<open>\s\<close> those of \<open>py_isspace\<close>.
\<close>

definition re_word :: "char \<Rightarrow> bool" where
  "re_word c =
     (let n = of_char c :: nat
      in (48 \<le> n \<and> n \<le> 57) \<or> (65 \<le> n \<and> n \<le> 90) \<or> n = 95 \<or> (97 \<le> n \<and> n \<le> 122) \<or>
         n = 170 \<or> n = 178 \<or> n = 179 \<or> n = 181 \<or> n = 185 \<or> n = 186 \<or>
         (188 \<le> n \<and> n \<le> 190) \<or> (192 \<le> n \<and> n \<le> 214) \<or> (216 \<le> n \<and> n \<le> 246) \<or>
         248 \<le> n)"

definition sanitize_filename :: "string \<Rightarrow> string" where
  "sanitize_filename text =
     map (\<lambda>c. if c = CHR '' '' then CHR ''_'' else c)
       (py_strip (filter (\<lambda>c. re_word c \<or> py_isspace c \<or> c = CHR ''-'') text))"

text \<open>
  What the world answers to one call of \<open>download_image\<close> is part of the call: the
  response to \<open>session.get\<close> (\<open>NoResponse\<close> when the request or the read raises), and
  what happens on the disk (which of \<open>mkdir\<close>, \<open>open\<close>, \<open>write\<close> and the closing of the
  file raises, with what the interrupted \<open>write\<close> left in the file, or that the file is
  written). The bytes of an image are a \<open>string\<close>.
\<close>

datatype response = NoResponse | Response int string

datatype io_result = MkdirRaises | OpenRaises | WriteRaises string | CloseRaises | Written

record image_call =
  image_url :: string
  for_manufacturer :: string
  for_model :: string
  for_year :: int
  index :: int
  reply :: response
  disk :: io_result

text \<open>
  \<open>pathlib\<close> is a parameter of the model: \<open>joinpath base parts\<close> is the path
  \<open>Path(base) / parts[0] / ...\<close> as a string, and \<open>relative_to p base\<close> is
  \<open>str(p.relative_to(base))\<close>, or \<open>None\<close> where that raises \<open>ValueError\<close>. \<open>hashlib.sha256\<close>
  followed by \<open>hexdigest\<close> is a parameter too, an arbitrary function of the bytes.
\<close>

record pathlib =
  joinpath :: "string \<Rightarrow> string list \<Rightarrow> string"
  relative_to :: "string \<Rightarrow> string \<Rightarrow> string option"

text \<open>
  The downloader with its attributes, and the files it can see (path to content). Every
  exception inside the \<open>try\<close> is caught and makes the call return \<open>None\<close>; the hash has
  been added to \<open>image_hashes\<close> before the disk is touched.
\<close>

record downloader =
  base_output_dir :: string
  max_size_mb :: pyfloat
  image_hashes :: "string set"
  files :: "string \<rightharpoonup> string"

definition new_downloader :: "string \<Rightarrow> pyfloat \<Rightarrow> (string \<rightharpoonup> string) \<Rightarrow> downloader" where
  "new_downloader dir mb fs =
     \<lparr>base_output_dir = dir, max_size_mb = mb, image_hashes = {}, files = fs\<rparr>"

definition write_file :: "string \<Rightarrow> string \<Rightarrow> downloader \<Rightarrow> downloader" where
  "write_file filepath content d = d\<lparr>files := (files d)(filepath := Some content)\<rparr>"

definition download_image ::
  "(string \<Rightarrow> string) \<Rightarrow> pathlib \<Rightarrow> downloader \<Rightarrow> image_call \<Rightarrow> string option \<times> downloader" where
  "download_image sha256 pl self c =
     (case reply c of
        NoResponse \<Rightarrow> (None, self)
      | Response status image_data \<Rightarrow>
          if status \<noteq> 200 then (None, self)
          else
            let image_hash = sha256 image_data
            in if image_hash \<in> image_hashes self then (None, self)
               else
                 let self1 = self\<lparr>image_hashes := insert image_hash (image_hashes self)\<rparr>;
                     ext = (if py_in ''.png'' (py_lower (image_url c)) then ''png''
                            else if py_in ''.webp'' (py_lower (image_url c)) then ''webp''
                            else ''jpg'');
                     safe_name = sanitize_filename
                       (for_manufacturer c @ ''_'' @ for_model c @ ''_'' @ str_int (for_year c));
                     filename = safe_name @ ''_'' @ format_03d (index c) @ ''.'' @ ext;
                     filepath = joinpath pl (base_output_dir self)
                       [for_manufacturer c, for_model c, str_int (for_year c), filename]
                 in (case disk c of
                       MkdirRaises \<Rightarrow> (None, self1)
                     | OpenRaises \<Rightarrow> (None, self1)
                     | WriteRaises part \<Rightarrow> (None, write_file filepath part self1)
                     | CloseRaises \<Rightarrow> (None, write_file filepath image_data self1)
                     | Written \<Rightarrow>
                         (relative_to pl filepath (base_output_dir self),
                          write_file filepath image_data self1)))"

text \<open>A run: a sequence of calls on one downloader, with the result of each.\<close>

fun download_images ::
  "(string \<Rightarrow> string) \<Rightarrow> pathlib \<Rightarrow> downloader \<Rightarrow> image_call list \<Rightarrow>
     string option list \<times> downloader" where
  "download_images sha256 pl self [] = ([], self)"
| "download_images sha256 pl self (c # cs) =
     (let (r, self') = download_image sha256 pl self c;
          (rs, self'') = download_images sha256 pl self' cs
      in (r # rs, self''))"

text \<open>
  For the statements: the bytes a call fetched, and the contents for which a run
  returned a path.
\<close>

definition fetched :: "image_call \<Rightarrow> string" where
  "fetched c = (case reply c of NoResponse \<Rightarrow> [] | Response status image_data \<Rightarrow> image_data)"

definition downloaded :: "image_call list \<Rightarrow> string option list \<Rightarrow> string list" where
  "downloaded cs rs = map (\<lambda>(c, r). fetched c) (filter (\<lambda>(c, r). r \<noteq> None) (zip cs rs))"



text \<open>
  A sample \<open>pathlib\<close> for relative names without dots, and a call that the world answers
  with status 200 and a disk that works.
\<close>

definition sample_pathlib :: pathlib where
  "sample_pathlib =
     \<lparr>joinpath = (\<lambda>base parts. foldl (\<lambda>p c. p @ ''/'' @ c) base parts),
      relative_to = (\<lambda>p base.
        if take (length base + 1) p = base @ ''/'' then Some (drop (length base + 1) p)
        else None)\<rparr>"

definition sample_call :: "string \<Rightarrow> int \<Rightarrow> string \<Rightarrow> image_call" where
  "sample_call u i image_data =
     \<lparr>image_url = u, for_manufacturer = ''Ducati'', for_model = ''Monster'', for_year = 2024,
      index = i, reply = Response 200 image_data, disk = Written\<rparr>"

section \<open>The entry of the discovery engine (\<open>src/crawler/discovery.py\<close>)\<close>

text \<open>
  \<open>discover_all_pages\<close> raises \<open>RuntimeError\<close> in two places, told apart here by what they
  report: the browser was not initialised, or no entry URL could be loaded.
\<close>


datatype discovery_error = BrowserNotInitialized | AllUrlsBlocked

text \<open>
  One pass through the \<open>try\<close> block of the navigation loop for a URL: some call in it
  raises, or the page is loaded and the loop sees the status of the response (\<open>None\<close>
  when \<open>goto\<close> returns no response), the title and the content.
\<close>

datatype navigation = NavigationRaises | Loaded "int option" string string

record crawl_state =
  visited_urls :: "string set"
  discovered_urls :: "string set"

text \<open>
  The browser and the site are a parameter: what navigating to a URL gives, and what each
  discovery strategy returns. Every strategy catches the exceptions of its own
  navigation and returns the URLs it has found so far, none when it reaches no page.
  \<open>_follow_links_from_pages\<close> is given a sample of the discovered set, taken in the order
  of a Python set.
\<close>

record browsing_agent =
  navigate :: "string \<Rightarrow> navigation"
  check_sitemap :: "string list"
  discover_via_hamburger_menu :: "string list"
  discover_heritage_bikes :: "string list"
  discover_from_dropdown :: "string list"
  discover_via_search :: "string list"
  follow_links_from_pages :: "string set \<Rightarrow> string list"
  discover_via_link_following :: "string list"

definition urls_to_try :: "string \<Rightarrow> string list" where
  "urls_to_try base_url =
     [base_url @ ''/ca/en/home'', base_url @ ''/us/en/home'', base_url @ ''/ww/en/home'',
      base_url]"

text \<open>
  A navigation reaches an accessible page when nothing raises, the status is not 403 and
  neither the title nor the content says that access is denied.
\<close>

definition accessible :: "navigation \<Rightarrow> bool" where
  "accessible n =
     (case n of
        NavigationRaises \<Rightarrow> False
      | Loaded status title content \<Rightarrow>
          status \<noteq> Some 403 \<and>
          \<not> (py_in ''Access Denied'' title \<or> py_in ''access denied'' (py_lower content)))"

text \<open>
  The loop \<open>for url in urls_to_try\<close>, with the lines it logs (the line about an
  exception without the text of the exception): it returns \<open>navigation_success\<close>, and
  stops at the first URL that loads. \<open>base_url\<close> is \<open>self.base_url\<close>.
\<close>

fun navigation_loop :: "(string \<Rightarrow> navigation) \<Rightarrow> string list \<Rightarrow> bool \<times> string list" where
  "navigation_loop nav [] = (False, [])"
| "navigation_loop nav (u # rest) =
     (case nav u of
        NavigationRaises \<Rightarrow>
          (let (ok, messages) = navigation_loop nav rest
           in (ok, (''Attempting to navigate to '' @ u) # (''Error navigating to '' @ u) # messages))
      | Loaded status title content \<Rightarrow>
          if status = Some 403
          then (let (ok, messages) = navigation_loop nav rest
                in (ok, (''Attempting to navigate to '' @ u) #
                        (''Got 403 Forbidden on '' @ u) # messages))
          else if py_in ''Access Denied'' title \<or> py_in ''access denied'' (py_lower content)
          then (let (ok, messages) = navigation_loop nav rest
                in (ok, (''Attempting to navigate to '' @ u) #
                        (''Access Denied on '' @ u @ '', trying next URL...'') # messages))
          else (True, [''Attempting to navigate to '' @ u, ''Successfully loaded '' @ u]))"

text \<open>
  \<open>for url in urls: if url not in self.visited_urls: self.discovered_urls.add(url); yield
  url\<close>, and the seven strategy steps in their order. The consumer of the generator
  collects the URLs and leaves \<open>visited_urls\<close> alone while the generator runs.
\<close>

fun yield_new :: "string list \<Rightarrow> crawl_state \<Rightarrow> string list \<times> crawl_state" where
  "yield_new [] st = ([], st)"
| "yield_new (u # rest) st =
     (if u \<notin> visited_urls st
      then (let (ys, st') = yield_new rest (st\<lparr>discovered_urls := insert u (discovered_urls st)\<rparr>)
            in (u # ys, st'))
      else yield_new rest st)"

definition run_strategies :: "browsing_agent \<Rightarrow> crawl_state \<Rightarrow> string list \<times> crawl_state" where
  "run_strategies agent st =
     (let (y1, st1) = yield_new (check_sitemap agent) st;
          (y2, st2) = yield_new (discover_via_hamburger_menu agent) st1;
          (y3, st3) = yield_new (discover_heritage_bikes agent) st2;
          (y4, st4) = yield_new (discover_from_dropdown agent) st3;
          (y5, st5) = yield_new (discover_via_search agent) st4;
          (y6, st6) = (if discovered_urls st5 \<noteq> {}
                       then yield_new (follow_links_from_pages agent (discovered_urls st5)) st5
                       else ([], st5));
          (y7, st7) = yield_new (discover_via_link_following agent) st6
      in (y1 @ y2 @ y3 @ y4 @ y5 @ y6 @ y7, st7))"

text \<open>
  A run of the generator: the exception it ends with, if any, the URLs it yields, the
  state, and the log of the navigation loop. The cookie handler catches its own
  exceptions; the waits outside the \<open>try\<close> blocks are taken to return.
\<close>

record discovery_run =
  raised :: "discovery_error option"
  yielded :: "string list"
  final_state :: crawl_state
  navigation_log :: "string list"

definition discover_all_pages ::
  "string \<Rightarrow> bool \<Rightarrow> browsing_agent \<Rightarrow> crawl_state \<Rightarrow> discovery_run" where
  "discover_all_pages base_url page_initialized agent st =
     (if \<not> page_initialized
      then \<lparr>raised = Some BrowserNotInitialized, yielded = [], final_state = st,
            navigation_log = []\<rparr>
      else
        let (navigation_success, messages) = navigation_loop (navigate agent) (urls_to_try base_url)
        in if \<not> navigation_success
           then \<lparr>raised = Some AllUrlsBlocked, yielded = [], final_state = st,
                 navigation_log = messages\<rparr>
           else
             let (ys, st') = run_strategies agent st
             in \<lparr>raised = None, yielded = ys, final_state = st', navigation_log = messages\<rparr>)"

text \<open>For the statements: the log holds a line about a failed attempt on \<open>u\<close>.\<close>

definition failure_logged :: "string \<Rightarrow> string list \<Rightarrow> bool" where
  "failure_logged u messages =
     (''Error navigating to '' @ u \<in> set messages \<or> ''Got 403 Forbidden on '' @ u \<in> set messages \<or>
      ''Access Denied on '' @ u @ '', trying next URL...'' \<in> set messages)"

text \<open>
  A sample site whose sitemap lists one page and whose other strategies find nothing,
  with a given behaviour of the browser; and the state of a first run.
\<close>

definition sample_agent :: "(string \<Rightarrow> navigation) \<Rightarrow> browsing_agent" where
  "sample_agent nav =
     \<lparr>navigate = nav,
      check_sitemap = [''https://www.ducati.com/ww/en/bikes/monster''],
      discover_via_hamburger_menu = [], discover_heritage_bikes = [],
      discover_from_dropdown = [], discover_via_search = [],
      follow_links_from_pages = (\<lambda>_. []), discover_via_link_following = []\<rparr>"

definition fresh_state :: crawl_state where
  "fresh_state = \<lparr>visited_urls = {}, discovered_urls = {}\<rparr>"

section \<open>Unit conversion (\<open>src/utils/units.py\<close>)\<close>

text \<open>The conversion constants, each the double its decimal literal denotes.\<close>

definition HP_TO_KW :: pyfloat where "HP_TO_KW = double_of_decimal 7457 4"
definition LBFT_TO_NM :: pyfloat where "LBFT_TO_NM = double_of_decimal 13558 4"
definition INCH_TO_MM :: pyfloat where "INCH_TO_MM = double_of_decimal 254 1"
definition FOOT_TO_MM :: pyfloat where "FOOT_TO_MM = double_of_decimal 3048 1"
definition LBS_TO_KG :: pyfloat where "LBS_TO_KG = double_of_decimal 453592 6"
definition MPH_TO_KMH :: pyfloat where "MPH_TO_KMH = double_of_decimal 160934 5"
definition GALLON_TO_LITER :: pyfloat where "GALLON_TO_LITER = double_of_decimal 378541 5"

text \<open>
  The conversion functions. The argument is a \<open>float\<close>; an \<open>int\<close> that a double holds
  exactly takes part in the arithmetic as that double.
\<close>

definition convert_power_hp_to_kw :: "pyfloat \<Rightarrow> pyfloat" where
  "convert_power_hp_to_kw horsepower = py_round (float_mul horsepower HP_TO_KW) 2"

definition convert_torque_lbft_to_nm :: "pyfloat \<Rightarrow> pyfloat" where
  "convert_torque_lbft_to_nm torque_lbft = py_round (float_mul torque_lbft LBFT_TO_NM) 2"

definition convert_length_inches_to_mm :: "pyfloat \<Rightarrow> pyfloat" where
  "convert_length_inches_to_mm inches = py_round (float_mul inches INCH_TO_MM) 1"

definition convert_length_feet_to_mm :: "pyfloat \<Rightarrow> pyfloat" where
  "convert_length_feet_to_mm feet = py_round (float_mul feet FOOT_TO_MM) 1"

definition convert_weight_lbs_to_kg :: "pyfloat \<Rightarrow> pyfloat" where
  "convert_weight_lbs_to_kg pounds = py_round (float_mul pounds LBS_TO_KG) 2"

definition convert_speed_mph_to_kmh :: "pyfloat \<Rightarrow> pyfloat" where
  "convert_speed_mph_to_kmh mph = py_round (float_mul mph MPH_TO_KMH) 2"

definition convert_volume_gallons_to_liters :: "pyfloat \<Rightarrow> pyfloat" where
  "convert_volume_gallons_to_liters gallons = py_round (float_mul gallons GALLON_TO_LITER) 2"

definition convert_fuel_consumption_mpg_to_l100km :: "pyfloat \<Rightarrow> error + pyfloat" where
  "convert_fuel_consumption_mpg_to_l100km mpg =
     (if float_le mpg (Fin 0 0) then Inr (Fin 0 0)
      else case float_div (double_of_decimal 235214 3) mpg of
             Inl e \<Rightarrow> Inl e
           | Inr q \<Rightarrow> Inr (py_round q 2))"

text \<open>
  The lists of unit names that \<open>convert_to_metric\<close> tests with \<open>in\<close>, named here, and the
  function: the two unit strings are lower-cased and stripped, then the rules are tried
  in order.
\<close>

definition power_units :: "string list" where
  "power_units = [''hp'', ''horsepower'', ''bhp'']"
definition kilowatt_units :: "string list" where
  "kilowatt_units = [''kw'', ''kilowatt'', ''kilowatts'']"
definition torque_units :: "string list" where
  "torque_units = [''lb-ft'', ''lbft'', ''lb.ft'', ''ft-lb'', ''ft.lb'']"
definition newton_meter_units :: "string list" where
  "newton_meter_units = [''nm'', ''n-m'', ''newton-meter'']"
definition inch_units :: "string list" where
  "inch_units = [''in'', ''inch'', ''inches'', [CHR 0x22]]"
definition foot_units :: "string list" where
  "foot_units = [''ft'', ''foot'', ''feet'', [CHR 0x27]]"
definition millimeter_units :: "string list" where
  "millimeter_units = [''mm'', ''millimeter'', ''millimeters'']"
definition pound_units :: "string list" where
  "pound_units = [''lb'', ''lbs'', ''pound'', ''pounds'']"
definition kilogram_units :: "string list" where
  "kilogram_units = [''kg'', ''kilogram'', ''kilograms'']"
definition mph_units :: "string list" where
  "mph_units = [''mph'', ''mi/h'']"
definition kmh_units :: "string list" where
  "kmh_units = [''km/h'', ''kmh'', ''kph'']"
definition gallon_units :: "string list" where
  "gallon_units = [''gal'', ''gallon'', ''gallons'']"
definition liter_units :: "string list" where
  "liter_units = [''l'', ''liter'', ''liters'', ''litre'', ''litres'']"
definition mpg_units :: "string list" where
  "mpg_units = [''mpg'', ''mi/gal'']"
definition l100km_units :: "string list" where
  "l100km_units = [''l/100km'', ''l/100 km'']"

definition convert_to_metric :: "pyfloat \<Rightarrow> string \<Rightarrow> string \<Rightarrow> error + pyfloat option" where
  "convert_to_metric val unit target_unit =
     (let u = py_strip (py_lower unit);
          t = py_strip (py_lower target_unit)
      in if u \<in> set power_units \<and> t \<in> set kilowatt_units
         then Inr (Some (convert_power_hp_to_kw val))
         else if u \<in> set torque_units \<and> t \<in> set newton_meter_units
         then Inr (Some (convert_torque_lbft_to_nm val))
         else if u \<in> set inch_units \<and> t \<in> set millimeter_units
         then Inr (Some (convert_length_inches_to_mm val))
         else if u \<in> set foot_units \<and> t \<in> set millimeter_units
         then Inr (Some (convert_length_feet_to_mm val))
         else if u \<in> set pound_units \<and> t \<in> set kilogram_units
         then Inr (Some (convert_weight_lbs_to_kg val))
         else if u \<in> set mph_units \<and> t \<in> set kmh_units
         then Inr (Some (convert_speed_mph_to_kmh val))
         else if u \<in> set gallon_units \<and> t \<in> set liter_units
         then Inr (Some (convert_volume_gallons_to_liters val))
         else if u \<in> set mpg_units \<and> t \<in> set l100km_units
         then (case convert_fuel_consumption_mpg_to_l100km val of
                 Inl e \<Rightarrow> Inl e
               | Inr v \<Rightarrow> Inr (Some v))
         else if u = t then Inr (Some val)
         else Inr None)"

text \<open>
  For the statements: the pairs of source and target lists of the eight rules, and
  whether some rule applies to a pair of unit names.
\<close>

definition conversion_units :: "(string list \<times> string list) list" where
  "conversion_units =
     [(power_units, kilowatt_units), (torque_units, newton_meter_units),
      (inch_units, millimeter_units), (foot_units, millimeter_units),
      (pound_units, kilogram_units), (mph_units, kmh_units), (gallon_units, liter_units),
      (mpg_units, l100km_units)]"

definition rule_applies :: "string \<Rightarrow> string \<Rightarrow> bool" where
  "rule_applies u t = (\<exists>(src, tgt)\<in>set conversion_units. u \<in> set src \<and> t \<in> set tgt)"


subsection \<open>\<open>parse_spec_value\<close>\<close>

text \<open>
  The pattern \<open>([\d.]+)(?:\s*[-]\s*([\d.]+))?\s*([a-zA-Z][a-zA-Z./\-]*)\<close> of
  \<open>parse_spec_value\<close>, matched as \<open>re.search\<close> matches it. The dash of a range is the
  hyphen; the en dash that the pattern also admits is beyond the code points of the
  model. At a given start, the first group must be the whole run of digits and dots
  (after a shorter one the next character is a digit or a dot, which neither a dash nor a
  letter matches), and likewise every \<open>\s*\<close> and the second group take the whole run;
  the range is tried first, then the match without it. \<open>match_unit\<close> is
  \<open>\s*([a-zA-Z][a-zA-Z./\-]*)\<close>, \<open>match_range\<close> is \<open>\s*[-]\s*([\d.]+)\<close> with what follows
  it, \<open>match_value_unit\<close> the pattern at the start of a string, \<open>search_value_unit\<close> the
  leftmost match, and \<open>search_number\<close> the leftmost match of \<open>([\d.]+)\<close>.
\<close>

definition number_char :: "char \<Rightarrow> bool" where
  "number_char c = (re_digit c \<or> c = CHR ''.'')"

definition unit_char :: "char \<Rightarrow> bool" where
  "unit_char c = (ascii_letter c \<or> c = CHR ''.'' \<or> c = CHR ''/'' \<or> c = CHR ''-'')"

definition match_unit :: "string \<Rightarrow> string option" where
  "match_unit s =
     (case dropWhile py_isspace s of
        [] \<Rightarrow> None
      | c # cs \<Rightarrow> if ascii_letter c then Some (c # takeWhile unit_char cs) else None)"

definition match_range :: "string \<Rightarrow> (string \<times> string) option" where
  "match_range s =
     (case dropWhile py_isspace s of
        [] \<Rightarrow> None
      | c # cs \<Rightarrow>
          if c = CHR ''-''
          then (let r = dropWhile py_isspace cs;
                    g = takeWhile number_char r
                in if g = [] then None else Some (g, dropWhile number_char r))
          else None)"

definition match_value_unit :: "string \<Rightarrow> (string \<times> string option \<times> string) option" where
  "match_value_unit s =
     (let g1 = takeWhile number_char s;
          r1 = dropWhile number_char s;
          without_range = (case match_unit r1 of None \<Rightarrow> None | Some u \<Rightarrow> Some (g1, None, u))
      in if g1 = [] then None
         else case match_range r1 of
                None \<Rightarrow> without_range
              | Some (g2, r2) \<Rightarrow>
                  (case match_unit r2 of
                     None \<Rightarrow> without_range
                   | Some u \<Rightarrow> Some (g1, Some g2, u)))"

fun search_value_unit :: "string \<Rightarrow> (string \<times> string option \<times> string) option" where
  "search_value_unit [] = None"
| "search_value_unit (c # cs) =
     (case match_value_unit (c # cs) of
        Some m \<Rightarrow> Some m
      | None \<Rightarrow> search_value_unit cs)"

definition search_number :: "string \<Rightarrow> string option" where
  "search_number s =
     (let g = takeWhile number_char (dropWhile (\<lambda>c. \<not> number_char c) s)
      in if g = [] then None else Some g)"

text \<open>
  \<open>float(s)\<close> for a string of digits and dots, which is what the groups hold: it raises
  \<open>ValueError\<close> unless there is a digit and at most one dot, and otherwise returns the
  double nearest to the decimal number.
\<close>

definition digits_value :: "string \<Rightarrow> int" where
  "digits_value ds = foldl (\<lambda>n c. 10 * n + (int (of_char c) - 48)) 0 ds"

definition py_float :: "string \<Rightarrow> error + pyfloat" where
  "py_float g =
     (let digits = filter re_digit g;
          dots = filter (\<lambda>c. c = CHR ''.'') g
      in if digits = [] \<or> 1 < length dots then Inl ValueError
         else Inr (double_of_decimal (digits_value digits)
                     (length (filter re_digit (dropWhile re_digit g)))))"

text \<open>
  \<open>parse_spec_value\<close>. The argument is a \<open>str\<close>; \<open>not text\<close> holds for the empty string.
\<close>

definition parse_spec_value :: "string \<Rightarrow> error + (pyfloat option \<times> string option)" where
  "parse_spec_value text0 =
     (if text0 = [] then Inr (None, None)
      else
        let text1 = py_strip (py_remove ''approximately'' (py_remove ''approx.''
                      (py_remove ''~'' text0)))
        in case search_value_unit text1 of
             Some (group1, group2, group3) \<Rightarrow>
               (case py_float group1 of
                  Inl e \<Rightarrow> Inl e
                | Inr value1 \<Rightarrow>
                    (let unit = py_strip group3
                     in case group2 of
                          None \<Rightarrow> Inr (Some value1, Some unit)
                        | Some value2 \<Rightarrow>
                            (case py_float value2 of
                               Inl e \<Rightarrow> Inl e
                             | Inr f2 \<Rightarrow>
                                 (case float_div (float_add value1 f2) (double_of_decimal 2 0) of
                                    Inl e \<Rightarrow> Inl e
                                  | Inr v \<Rightarrow> Inr (Some v, Some unit)))))
           | None \<Rightarrow>
               (case search_number text1 of
                  Some g \<Rightarrow>
                    (case py_float g of
                       Inl e \<Rightarrow> Inl e
                     | Inr v \<Rightarrow> Inr (Some v, None))
                | None \<Rightarrow> Inr (None, None)))"


section \<open>URL normalisation (\<open>PageDiscoveryEngine.normalize_url\<close>)\<close>

text \<open>
  \<open>urllib.parse.urlparse\<close> of Python 3.11, on which \<open>normalize_url\<close> rests. \<open>urlsplit\<close>
  strips leading control characters and spaces, removes tabs and line breaks, splits
  off a scheme (a letter followed by scheme characters, up to the first colon), a
  network location after \<open>//\<close>, the fragment and the query; \<open>urlparse\<close> also splits the
  parameters after the first semicolon of the last path segment, for the schemes in
  \<open>uses_params\<close>. A network location with unbalanced brackets raises \<open>ValueError\<close>, and
  so does a bracketed host that \<open>_check_bracketed_host\<close> rejects; that check is a
  parameter. \<open>_checknetloc\<close> never raises on the code points 0 to 255.
\<close>

definition scheme_char :: "char \<Rightarrow> bool" where
  "scheme_char c = (ascii_letter c \<or> re_digit c \<or> c = CHR ''+'' \<or> c = CHR ''-'' \<or> c = CHR ''.'')"

definition uses_params :: "string list" where
  "uses_params =
     ['''', ''ftp'', ''hdl'', ''prospero'', ''http'', ''imap'', ''https'', ''shttp'', ''rtsp'',
      ''rtsps'', ''rtspu'', ''sip'', ''sips'', ''mms'', ''sftp'', ''tel'']"

text \<open>The part of a string before the first \<open>d\<close>, and the part after it.\<close>

definition before :: "char \<Rightarrow> string \<Rightarrow> string" where
  "before d s = takeWhile (\<lambda>c. c \<noteq> d) s"

definition after :: "char \<Rightarrow> string \<Rightarrow> string" where
  "after d s = drop 1 (dropWhile (\<lambda>c. c \<noteq> d) s)"

record SplitResult =
  scheme :: string
  netloc :: string
  path :: string
  query :: string
  fragment :: string

definition urlsplit :: "(string \<Rightarrow> bool) \<Rightarrow> string \<Rightarrow> error + SplitResult" where
  "urlsplit check_bracketed_host url0 =
     (let url1 = filter (\<lambda>c. c \<noteq> CHR 0x09 \<and> c \<noteq> CHR 0x0D \<and> c \<noteq> CHR 0x0A)
                   (dropWhile (\<lambda>c. (of_char c :: nat) \<le> 32) url0);
          pre = before CHR '':'' url1;
          has_scheme = (CHR '':'' \<in> set url1 \<and> pre \<noteq> [] \<and> ascii_letter (hd pre) \<and>
                        list_all scheme_char pre);
          sch = (if has_scheme then py_lower pre else []);
          url2 = (if has_scheme then after CHR '':'' url1 else url1);
          has_netloc = (take 2 url2 = ''//'');
          delim = (\<lambda>c. c = CHR ''/'' \<or> c = CHR ''?'' \<or> c = CHR ''#'');
          nl = (if has_netloc then takeWhile (\<lambda>c. \<not> delim c) (drop 2 url2) else []);
          url3 = (if has_netloc then dropWhile (\<lambda>c. \<not> delim c) (drop 2 url2) else url2);
          opening = (CHR ''['' \<in> set nl);
          closing = (CHR '']'' \<in> set nl)
      in if opening \<noteq> closing then Inl ValueError
         else if opening \<and> closing \<and>
                 \<not> check_bracketed_host (before CHR '']'' (after CHR ''['' nl))
         then Inl ValueError
         else
           let frag = (if CHR ''#'' \<in> set url3 then after CHR ''#'' url3 else []);
               url4 = (if CHR ''#'' \<in> set url3 then before CHR ''#'' url3 else url3);
               qry = (if CHR ''?'' \<in> set url4 then after CHR ''?'' url4 else []);
               url5 = (if CHR ''?'' \<in> set url4 then before CHR ''?'' url4 else url4)
           in Inr \<lparr>scheme = sch, netloc = nl, path = url5, query = qry, fragment = frag\<rparr>)"

definition splitparams :: "string \<Rightarrow> string \<times> string" where
  "splitparams url0 =
     (let last_segment = rev (before CHR ''/'' (rev url0));
          front = take (length url0 - length last_segment) url0
      in if CHR '';'' \<in> set last_segment
         then (front @ before CHR '';'' last_segment, after CHR '';'' last_segment)
         else (url0, []))"

record ParseResult = SplitResult +
  params :: string

definition urlparse :: "(string \<Rightarrow> bool) \<Rightarrow> string \<Rightarrow> error + ParseResult" where
  "urlparse check_bracketed_host url0 =
     (case urlsplit check_bracketed_host url0 of
        Inl e \<Rightarrow> Inl e
      | Inr r \<Rightarrow>
          (let (p, ps) = (if scheme r \<in> set uses_params \<and> CHR '';'' \<in> set (path r)
                          then splitparams (path r) else (path r, []))
           in Inr \<lparr>scheme = scheme r, netloc = netloc r, path = p, query = query r,
                    fragment = fragment r, params = ps\<rparr>))"

text \<open>\<open>normalize_url\<close>: \<open>rstrip('/')\<close> on the path, the parts put together, \<open>lower\<close>.\<close>

definition normalize_url :: "(string \<Rightarrow> bool) \<Rightarrow> string \<Rightarrow> error + string" where
  "normalize_url check_bracketed_host url0 =
     (case urlparse check_bracketed_host url0 of
        Inl e \<Rightarrow> Inl e
      | Inr parsed \<Rightarrow>
          (let path' = rev (dropWhile (\<lambda>c. c = CHR ''/'') (rev (path parsed)));
               normalized = scheme parsed @ ''://'' @ netloc parsed @ path';
               normalized' = (if query parsed \<noteq> [] then normalized @ ''?'' @ query parsed
                              else normalized)
           in Inr (py_lower normalized')))"

section \<open>Properties of the merger\<close>

lemma fold_merge_field_fields [simp]:
  "model_fields (fold (merge_field s2) fs s1) = model_fields s1"
  by (induction fs arbitrary: s1) (simp_all add: merge_field_def Let_def)

lemma merge_field_attrs:
  "attrs (merge_field s2 a s1) f =
     (if f = a then (case attrs s1 a of None \<Rightarrow> attrs s2 a | Some v \<Rightarrow> Some v)
      else attrs s1 f)"
  by (auto simp: merge_field_def Let_def split: option.splits)

lemma fold_merge_field_attrs:
  "attrs (fold (merge_field s2) fs s1) f =
     (if f \<in> set fs then (case attrs s1 f of None \<Rightarrow> attrs s2 f | Some v \<Rightarrow> Some v)
      else attrs s1 f)"
proof (induction fs arbitrary: s1)
  case Nil
  show ?case by simp
next
  case (Cons a fs)
  have "attrs (fold (merge_field s2) (a # fs) s1) f =
          attrs (fold (merge_field s2) fs (merge_field s2 a s1)) f"
    by simp
  also have "\<dots> =
      (if f \<in> set fs
       then (case attrs (merge_field s2 a s1) f of None \<Rightarrow> attrs s2 f | Some v \<Rightarrow> Some v)
       else attrs (merge_field s2 a s1) f)"
    by (rule Cons.IH)
  also have "\<dots> =
      (if f \<in> set (a # fs) then (case attrs s1 f of None \<Rightarrow> attrs s2 f | Some v \<Rightarrow> Some v)
       else attrs s1 f)"
    by (auto simp: merge_field_attrs split: option.splits)
  finally show ?case .
qed

lemma merge_specs_keeps:
  "field_value spec1 f \<noteq> None \<Longrightarrow> field_value (merge_specs spec1 spec2 pt) f = field_value spec1 f"
  by (auto simp: field_value_def merge_specs_def fold_merge_field_attrs split: option.splits)

lemma merge_specs_fills:
  assumes "\<And>s1. spec1 = Some s1 \<Longrightarrow> f \<in> set (model_fields s1)"
  shows "field_value (merge_specs spec1 spec2 pt) f =
           (case field_value spec1 f of None \<Rightarrow> field_value spec2 f | Some v \<Rightarrow> Some v)"
  using assms
  by (auto simp: field_value_def merge_specs_def fold_merge_field_attrs split: option.splits)

lemma merge_specs_fields:
  "merge_specs spec1 spec2 pt = Some s \<Longrightarrow>
     (\<exists>s1. spec1 = Some s1 \<and> model_fields s = model_fields s1) \<or>
     (spec1 = None \<and> spec2 = Some s)"
  by (auto simp: merge_specs_def split: option.splits)

lemma group_of_merge_specifications:
  "group_of g (merge_specifications a b pt) = merge_specs (group_of g a) (group_of g b) pt"
  by (cases g) (simp_all add: merge_specifications_def)

lemma merge_page_specifications:
  "merge_page set_order merged page = Inr m \<Longrightarrow>
     specifications m =
       merge_specifications (specifications merged) (specifications (bike_data page))
         (case page_type page of None \<Rightarrow> ''other'' | Some t \<Rightarrow> t)"
  by (auto simp: merge_page_def Let_def split: sum.splits)

lemma merge_page_keeps:
  assumes "merge_page set_order merged page = Inr m" "record_field g f merged \<noteq> None"
  shows "record_field g f m = record_field g f merged"
  using assms
  by (simp add: record_field_def merge_page_specifications group_of_merge_specifications
        merge_specs_keeps)

lemma merge_page_typed:
  assumes "merge_page set_order merged page = Inr m" "group_typed g merged"
    "group_typed g (bike_data page)"
  shows "group_typed g m"
  using assms
  by (auto simp: group_typed_def merge_page_specifications group_of_merge_specifications
        dest!: merge_specs_fields split: option.splits)

lemma merge_page_fills:
  assumes "merge_page set_order merged page = Inr m" "group_typed g merged"
    "f \<in> set (group_fields g)"
  shows "record_field g f m =
           (case record_field g f merged of None \<Rightarrow> record_field g f (bike_data page)
            | Some v \<Rightarrow> Some v)"
proof -
  have "\<And>s1. group_of g (specifications merged) = Some s1 \<Longrightarrow> f \<in> set (model_fields s1)"
    using assms(2,3) by (simp add: group_typed_def)
  then show ?thesis
    unfolding record_field_def using assms(1)
    by (simp add: merge_page_specifications group_of_merge_specifications
        merge_specs_fills[where f = f])
qed

lemma merge_pages_keeps:
  "merge_pages set_order acc rest = Inr m \<Longrightarrow> record_field g f acc \<noteq> None \<Longrightarrow>
     record_field g f m = record_field g f acc"
proof (induction rest arbitrary: acc)
  case Nil
  then show ?case by simp
next
  case (Cons page rest)
  then obtain a where a: "merge_page set_order acc page = Inr a"
    and r: "merge_pages set_order a rest = Inr m"
    by (auto split: sum.splits)
  have "record_field g f a = record_field g f acc"
    using merge_page_keeps[OF a Cons.prems(2)] .
  with Cons.IH[OF r] Cons.prems(2) show ?case by simp
qed

lemma merge_pages_typed:
  "merge_pages set_order acc rest = Inr m \<Longrightarrow> group_typed g acc \<Longrightarrow>
     \<forall>p\<in>set rest. group_typed g (bike_data p) \<Longrightarrow> group_typed g m"
proof (induction rest arbitrary: acc)
  case Nil
  then show ?case by simp
next
  case (Cons page rest)
  then obtain a where a: "merge_page set_order acc page = Inr a"
    and r: "merge_pages set_order a rest = Inr m"
    by (auto split: sum.splits)
  have "group_typed g a"
    using merge_page_typed[OF a] Cons.prems by simp
  then show ?case
    using Cons.IH[OF r] Cons.prems by simp
qed

lemma merge_pages_fills:
  "merge_pages set_order acc rest = Inr m \<Longrightarrow> group_typed g acc \<Longrightarrow>
     \<forall>p\<in>set rest. group_typed g (bike_data p) \<Longrightarrow> f \<in> set (group_fields g) \<Longrightarrow>
     record_field g f m =
       (case record_field g f acc of
          Some v \<Rightarrow> Some v
        | None \<Rightarrow>
            (case find (\<lambda>p. record_field g f (bike_data p) \<noteq> None) rest of
               None \<Rightarrow> None
             | Some p \<Rightarrow> record_field g f (bike_data p)))"
proof (induction rest arbitrary: acc)
  case Nil
  then show ?case by (simp split: option.splits)
next
  case (Cons page rest)
  then obtain a where a: "merge_page set_order acc page = Inr a"
    and r: "merge_pages set_order a rest = Inr m"
    by (auto split: sum.splits)
  have ta: "group_typed g a"
    using merge_page_typed[OF a] Cons.prems by simp
  have fa: "record_field g f a =
      (case record_field g f acc of None \<Rightarrow> record_field g f (bike_data page) | Some v \<Rightarrow> Some v)"
    using merge_page_fills[OF a Cons.prems(2) Cons.prems(4)] .
  have "record_field g f m =
       (case record_field g f a of
          Some v \<Rightarrow> Some v
        | None \<Rightarrow>
            (case find (\<lambda>p. record_field g f (bike_data p) \<noteq> None) rest of
               None \<Rightarrow> None
             | Some p \<Rightarrow> record_field g f (bike_data p)))"
    using Cons.IH[OF r ta] Cons.prems by simp
  then show ?case
    by (cases "record_field g f acc"; cases "record_field g f (bike_data page)")
       (simp_all add: fa)
qed

lemma merge_bike_data_cases:
  assumes "merge_bike_data set_order pages_data = Inr merged" "2 \<le> length pages_data"
  obtains first_page rest m where "sort_pages pages_data = first_page # rest"
    and "merge_pages set_order (bike_data first_page) rest = Inr m"
    and "specifications merged = specifications m"
proof -
  obtain p1 p2 ps where ps: "pages_data = p1 # p2 # ps"
    using assms(2) by (cases pages_data; cases "tl pages_data") auto
  have "length (sort_pages pages_data) = length pages_data"
    by (simp add: sort_pages_def)
  then obtain first_page rest where s: "sort_pages pages_data = first_page # rest"
    using ps by (cases "sort_pages pages_data") auto
  from assms(1) ps s obtain m where
    m: "merge_pages set_order (bike_data first_page) rest = Inr m"
    and e: "merged = m\<lparr>source_urls := py_list_set set_order (source_urls m),
                        images := unique_images_loop (images m) {} []\<rparr>"
    by (auto simp: merge_bike_data_def split: sum.splits)
  show ?thesis
    using that[OF s m] e by simp
qed

lemma find_sorted_max:
  assumes "find P (sort_pages ps) = Some p" "q \<in> set ps" "P q"
  shows "priority_key q \<le> priority_key p"
proof -
  let ?xs = "sort_pages ps"
  from assms(1) obtain i where i: "i < length ?xs" "?xs ! i = p" "\<forall>j<i. \<not> P (?xs ! j)"
    by (auto simp: find_Some_iff)
  have "q \<in> set ?xs" using assms(2) by (simp add: sort_pages_def)
  then obtain j where j: "j < length ?xs" "?xs ! j = q"
    by (auto simp: in_set_conv_nth)
  have "i \<le> j" using i(3) j(2) assms(3) by (meson not_le)
  have "sorted (map (\<lambda>x. - priority_key x) ?xs)"
    by (simp add: sort_pages_def)
  moreover have "j < length (map (\<lambda>x. - priority_key x) ?xs)"
    using j(1) by simp
  ultimately have
    "(map (\<lambda>x. - priority_key x) ?xs) ! i \<le> (map (\<lambda>x. - priority_key x) ?xs) ! j"
    using \<open>i \<le> j\<close> by (blast intro: sorted_nth_mono)
  then show ?thesis using i j \<open>i \<le> j\<close> by simp
qed

lemma find_in_set: "find P xs = Some p \<Longrightarrow> p \<in> set xs"
  by (auto simp: find_Some_iff)

lemma merge_bike_data_final:
  assumes ret: "merge_bike_data set_order pages_data = Inr merged"
    and len: "2 \<le> length pages_data"
    and typed: "\<forall>p\<in>set pages_data. group_typed g (bike_data p)"
    and f: "f \<in> set (group_fields g)"
  shows "record_field g f merged =
     (case find (\<lambda>p. record_field g f (bike_data p) \<noteq> None) (sort_pages pages_data) of
        None \<Rightarrow> None
      | Some p \<Rightarrow> record_field g f (bike_data p))"
proof -
  from ret len obtain first_page rest m where
    s: "sort_pages pages_data = first_page # rest"
    and m: "merge_pages set_order (bike_data first_page) rest = Inr m"
    and e: "specifications merged = specifications m"
    by (rule merge_bike_data_cases)
  have "set (sort_pages pages_data) = set pages_data"
    by (simp add: sort_pages_def)
  then have mem: "first_page \<in> set pages_data" "set rest \<subseteq> set pages_data"
    using s by auto
  have "record_field g f m =
       (case record_field g f (bike_data first_page) of
          Some v \<Rightarrow> Some v
        | None \<Rightarrow>
            (case find (\<lambda>p. record_field g f (bike_data p) \<noteq> None) rest of
               None \<Rightarrow> None
             | Some p \<Rightarrow> record_field g f (bike_data p)))"
    using merge_pages_fills[OF m _ _ f] typed mem by auto
  moreover have "record_field g f merged = record_field g f m"
    by (simp add: record_field_def e)
  ultimately show ?thesis
    by (cases "record_field g f (bike_data first_page)") (simp_all add: s)
qed

lemma merge_page_returns:
  "description (bike_data page) \<noteq> None \<Longrightarrow> \<exists>m. merge_page set_order acc page = Inr m"
  by (auto simp: merge_page_def merge_description_def Let_def split: option.splits)

lemma merge_pages_returns:
  "\<forall>p\<in>set rest. description (bike_data p) \<noteq> None \<Longrightarrow>
     \<exists>m. merge_pages set_order acc rest = Inr m"
proof (induction rest arbitrary: acc)
  case Nil
  show ?case by simp
next
  case (Cons page rest)
  obtain a where a: "merge_page set_order acc page = Inr a"
    using merge_page_returns[of page set_order acc] Cons.prems by auto
  obtain m where "merge_pages set_order a rest = Inr m"
    using Cons.IH[of a] Cons.prems by auto
  with a show ?case by simp
qed

lemma sample_page_simps:
  "page_type (sample_page pt kw) = Some pt"
  "record_field Engine ''max_power_kw'' (bike_data (sample_page pt kw)) = kw"
  "group_typed Engine (bike_data (sample_page pt kw))"
  "description (bike_data (sample_page pt kw)) = Some []"
  by (simp_all add: sample_page_def record_field_def field_value_def new_BikeData_def
      new_BikeSpecifications_def new_spec_obj_def group_typed_def)

lemma sample_priority:
  "priority_key (sample_page ''specs'' kw) = 3"
  "priority_key (sample_page ''main'' kw) = 2"
  "priority_key (sample_page ''features'' kw) = 1"
  "priority_key (sample_page ''gallery'' kw) = 0"
  by (simp_all add: priority_key_def page_type_priority_def sample_page_simps)

text \<open>
  C1. The merge is fill-only, in every one of the six groups \<open>g\<close> and for every field
  \<open>f\<close>. First, whatever records the loop processes and in whatever order, a field that
  is not \<open>None\<close> in the accumulator has the same value when the loop ends. Second, for a
  group of two or more records whose group objects belong to the class of the group and
  a field \<open>f\<close> of that class, the merged record has the value of \<open>f\<close> in the first
  record, in sorted order, that sets \<open>f\<close>; no record that sets \<open>f\<close> has a higher
  priority than that one; and the field is \<open>None\<close> when no record sets it.
\<close>

theorem merge_fill_only:
  "(\<forall>acc rest m.
      merge_pages set_order acc rest = Inr m \<and> record_field g f acc \<noteq> None \<longrightarrow>
      record_field g f m = record_field g f acc) \<and>
   (\<forall>pages_data merged.
      2 \<le> length pages_data \<and> (\<forall>p\<in>set pages_data. group_typed g (bike_data p)) \<and>
      f \<in> set (group_fields g) \<and> merge_bike_data set_order pages_data = Inr merged \<longrightarrow>
      (case find (\<lambda>p. record_field g f (bike_data p) \<noteq> None) (sort_pages pages_data) of
         None \<Rightarrow> record_field g f merged = None
       | Some p \<Rightarrow>
           record_field g f merged = record_field g f (bike_data p) \<and> p \<in> set pages_data \<and>
           (\<forall>q\<in>set pages_data.
              record_field g f (bike_data q) \<noteq> None \<longrightarrow> priority_key q \<le> priority_key p)))"
proof (intro conjI allI impI)
  fix acc rest m
  assume "merge_pages set_order acc rest = Inr m \<and> record_field g f acc \<noteq> None"
  then show "record_field g f m = record_field g f acc"
    using merge_pages_keeps by blast
next
  fix pages_data merged
  assume a: "2 \<le> length pages_data \<and> (\<forall>p\<in>set pages_data. group_typed g (bike_data p)) \<and>
      f \<in> set (group_fields g) \<and> merge_bike_data set_order pages_data = Inr merged"
  let ?P = "\<lambda>p. record_field g f (bike_data p) \<noteq> None"
  have fin: "record_field g f merged =
     (case find ?P (sort_pages pages_data) of
        None \<Rightarrow> None
      | Some p \<Rightarrow> record_field g f (bike_data p))"
    using merge_bike_data_final a by blast
  show "case find ?P (sort_pages pages_data) of
         None \<Rightarrow> record_field g f merged = None
       | Some p \<Rightarrow>
           record_field g f merged = record_field g f (bike_data p) \<and> p \<in> set pages_data \<and>
           (\<forall>q\<in>set pages_data. ?P q \<longrightarrow> priority_key q \<le> priority_key p)"
  proof (cases "find ?P (sort_pages pages_data)")
    case None
    then show ?thesis using fin by simp
  next
    case (Some p)
    have "p \<in> set (sort_pages pages_data)" using Some by (rule find_in_set)
    then have "p \<in> set pages_data" by (simp add: sort_pages_def)
    moreover have "\<forall>q\<in>set pages_data. ?P q \<longrightarrow> priority_key q \<le> priority_key p"
      using find_sorted_max[OF Some] by blast
    ultimately show ?thesis using Some fin by simp
  qed
qed

theorem merge_fill_only_witness:
  "(\<exists>m. merge_pages (\<lambda>xs. xs)
        (bike_data (sample_page ''specs'' (Some (VFloat (double_of_decimal 82 0)))))
        [sample_page ''main'' (Some (VFloat (double_of_decimal 80 0)))] = Inr m \<and>
      record_field Engine ''max_power_kw'' m = Some (VFloat (double_of_decimal 82 0))) \<and>
   (\<exists>merged. merge_bike_data (\<lambda>xs. xs)
       [sample_page ''features'' (Some (VFloat (double_of_decimal 75 0))),
        sample_page ''main'' (Some (VFloat (double_of_decimal 80 0))),
        sample_page ''specs'' None] = Inr merged \<and>
     record_field Engine ''max_power_kw'' merged = Some (VFloat (double_of_decimal 80 0)))"
proof
  let ?acc = "bike_data (sample_page ''specs'' (Some (VFloat (double_of_decimal 82 0))))"
  let ?rest = "[sample_page ''main'' (Some (VFloat (double_of_decimal 80 0)))]"
  obtain m where m: "merge_pages (\<lambda>xs. xs) ?acc ?rest = Inr m"
    using merge_pages_returns[of ?rest "\<lambda>xs. xs" ?acc] by (auto simp: sample_page_simps)
  have f: "record_field Engine ''max_power_kw'' ?acc \<noteq> None"
    by (simp add: sample_page_simps)
  have "record_field Engine ''max_power_kw'' m = record_field Engine ''max_power_kw'' ?acc"
    using merge_fill_only[of "\<lambda>xs. xs" Engine "''max_power_kw''"] m f by blast
  then show "\<exists>m. merge_pages (\<lambda>xs. xs) ?acc ?rest = Inr m \<and>
      record_field Engine ''max_power_kw'' m = Some (VFloat (double_of_decimal 82 0))"
    using m sample_page_simps(2) by metis
next
  let ?ps = "[sample_page ''features'' (Some (VFloat (double_of_decimal 75 0))),
        sample_page ''main'' (Some (VFloat (double_of_decimal 80 0))), sample_page ''specs'' None]"
  have s: "sort_pages ?ps = [sample_page ''specs'' None,
       sample_page ''main'' (Some (VFloat (double_of_decimal 80 0))),
       sample_page ''features'' (Some (VFloat (double_of_decimal 75 0)))]"
    by (simp add: sort_pages_def sample_priority)
  obtain m where "merge_pages (\<lambda>xs. xs) (bike_data (sample_page ''specs'' None))
       [sample_page ''main'' (Some (VFloat (double_of_decimal 80 0))),
        sample_page ''features'' (Some (VFloat (double_of_decimal 75 0)))] = Inr m"
    using merge_pages_returns[of "[sample_page ''main'' (Some (VFloat (double_of_decimal 80 0))),
        sample_page ''features'' (Some (VFloat (double_of_decimal 75 0)))]"]
    by (auto simp: sample_page_simps)
  then obtain merged where r: "merge_bike_data (\<lambda>xs. xs) ?ps = Inr merged"
    using s by (simp add: merge_bike_data_def)
  have "record_field Engine ''max_power_kw'' merged = Some (VFloat (double_of_decimal 80 0))"
    using merge_fill_only[of "\<lambda>xs. xs" Engine "''max_power_kw''"] r s
    by (auto simp: sample_page_simps EngineSpecs_fields_def dest!: spec[where x = ?ps])
  with r show "\<exists>merged. merge_bike_data (\<lambda>xs. xs) ?ps = Inr merged \<and>
      record_field Engine ''max_power_kw'' merged = Some (VFloat (double_of_decimal 80 0))"
    by blast
qed

lemma sort_pages_specs_main_gallery:
  assumes "page_type p1 = Some ''specs''" "page_type p2 = Some ''main''"
    "page_type p3 = Some ''gallery''" "mset pages_data = mset [p1, p2, p3]"
  shows "sort_pages pages_data = [p1, p2, p3]"
proof -
  have k: "priority_key p1 = 3" "priority_key p2 = 2" "priority_key p3 = 0"
    using assms(1-3) by (simp_all add: priority_key_def page_type_priority_def)
  have "set pages_data = {p1, p2, p3}"
    using assms(4) by (metis mset_eq_setD list.simps(15) empty_set)
  then have "inj_on (\<lambda>x. - priority_key x) (set pages_data)"
    using k by (auto simp: inj_on_def)
  moreover have "sorted (map (\<lambda>x. - priority_key x) [p1, p2, p3])"
    using k by simp
  ultimately show ?thesis
    unfolding sort_pages_def using assms(4) by (intro sort_key_inj_key_eq)
qed

text \<open>
  C2. For a group of three records with the page types specs, main and gallery (in any
  order in the list), where the specs record and the main record set \<open>max_power_kw\<close>
  to different values, the merged record has the value of the specs record. The merge
  returns a record whenever the main and the gallery record have a description
  (\<open>len\<close> of a missing description is the one way the loop can raise).
\<close>

theorem specs_page_wins:
  assumes "page_type p1 = Some ''specs''" "page_type p2 = Some ''main''"
    and "page_type p3 = Some ''gallery''"
    and "mset pages_data = mset [p1, p2, p3]"
    and "record_field Engine ''max_power_kw'' (bike_data p1) = Some v1"
    and "record_field Engine ''max_power_kw'' (bike_data p2) = Some v2"
    and "v1 \<noteq> v2"
  shows "(\<forall>merged. merge_bike_data set_order pages_data = Inr merged \<longrightarrow>
            record_field Engine ''max_power_kw'' merged = Some v1) \<and>
         (description (bike_data p2) \<noteq> None \<and> description (bike_data p3) \<noteq> None \<longrightarrow>
            (\<exists>merged. merge_bike_data set_order pages_data = Inr merged))"
proof (intro conjI allI impI)
  have s: "sort_pages pages_data = [p1, p2, p3]"
    using assms(1-4) by (rule sort_pages_specs_main_gallery)
  have len: "2 \<le> length pages_data"
    using assms(4) by (metis mset_eq_length length_Cons list.size(3) numeral_2_eq_2
        Suc_le_mono le0)
  {
    fix merged
    assume ret: "merge_bike_data set_order pages_data = Inr merged"
    from ret len obtain first_page rest m where
      s': "sort_pages pages_data = first_page # rest"
      and m: "merge_pages set_order (bike_data first_page) rest = Inr m"
      and e: "specifications merged = specifications m"
      by (rule merge_bike_data_cases)
    have "first_page = p1" using s s' by simp
    then have "record_field Engine ''max_power_kw'' m = Some v1"
      using merge_pages_keeps[OF m, of Engine "''max_power_kw''"] assms(5) by simp
    then show "record_field Engine ''max_power_kw'' merged = Some v1"
      by (simp add: record_field_def e)
  }
  assume d: "description (bike_data p2) \<noteq> None \<and> description (bike_data p3) \<noteq> None"
  then obtain m where "merge_pages set_order (bike_data p1) [p2, p3] = Inr m"
    using merge_pages_returns[of "[p2, p3]" set_order "bike_data p1"] by auto
  moreover obtain a b c where "pages_data = a # b # c"
    using len by (cases pages_data; cases "tl pages_data") auto
  ultimately show "\<exists>merged. merge_bike_data set_order pages_data = Inr merged"
    using s by (simp add: merge_bike_data_def)
qed

lemma sample_powers_differ: "double_of_decimal 82 0 \<noteq> double_of_decimal 80 0"
  by code_simp

theorem specs_page_wins_witness:
  "\<exists>merged. merge_bike_data (\<lambda>xs. xs)
       [sample_page ''gallery'' None, sample_page ''main'' (Some (VFloat (double_of_decimal 80 0))),
        sample_page ''specs'' (Some (VFloat (double_of_decimal 82 0)))] = Inr merged \<and>
     record_field Engine ''max_power_kw'' merged = Some (VFloat (double_of_decimal 82 0))"
  using specs_page_wins[of "sample_page ''specs'' (Some (VFloat (double_of_decimal 82 0)))"
      "sample_page ''main'' (Some (VFloat (double_of_decimal 80 0)))" "sample_page ''gallery'' None"
      "[sample_page ''gallery'' None, sample_page ''main'' (Some (VFloat (double_of_decimal 80 0))),
        sample_page ''specs'' (Some (VFloat (double_of_decimal 82 0)))]"
      "VFloat (double_of_decimal 82 0)" "VFloat (double_of_decimal 80 0)" "\<lambda>xs. xs"]
  by (auto simp: sample_page_simps sample_powers_differ)

text \<open>
  C9. Merging a group that consists of exactly one record returns that record, unchanged
  (the identity law of the merge).
\<close>

theorem merge_single_identity:
  "merge_bike_data set_order [page] = Inr (bike_data page)"
  by (simp add: merge_bike_data_def)

lemma kept_below_refl [simp]: "kept_below n \<sigma> \<sigma>"
  by (simp add: kept_below_def)

lemma kept_below_trans: "kept_below n \<sigma> \<sigma>' \<Longrightarrow> kept_below n \<sigma>' \<sigma>'' \<Longrightarrow> kept_below n \<sigma> \<sigma>''"
  by (simp add: kept_below_def)

lemma merge_field_st_objs:
  "b \<noteq> a1 \<Longrightarrow> objs (merge_field_st a1 a2 f \<sigma>) b = objs \<sigma> b"
  by (simp add: merge_field_st_def Let_def)

lemma fold_merge_field_st_objs:
  "b \<noteq> a1 \<Longrightarrow> objs (fold (merge_field_st a1 a2) fs \<sigma>) b = objs \<sigma> b"
  by (induction fs arbitrary: \<sigma>) (simp_all add: merge_field_st_objs)

lemma merge_specs_st_fresh:
  assumes "n \<le> a1"
  shows "fst (merge_specs_st (Some a1) spec2 pt \<sigma>) = Some a1 \<and>
         kept_below n \<sigma> (snd (merge_specs_st (Some a1) spec2 pt \<sigma>))"
proof (cases spec2)
  case None
  then show ?thesis by (simp add: merge_specs_st_def)
next
  case (Some a2)
  have "\<forall>b<n. b \<noteq> a1" using assms by auto
  then show ?thesis
    by (simp add: merge_specs_st_def Some kept_below_def fold_merge_field_st_objs)
qed

lemma all_fresh_groups:
  assumes "all_fresh n sp"
  obtains e t c d p l where
    "engine sp = Some e" "n \<le> e" "transmission sp = Some t" "n \<le> t"
    "chassis sp = Some c" "n \<le> c" "dimensions sp = Some d" "n \<le> d"
    "performance sp = Some p" "n \<le> p" "electrical sp = Some l" "n \<le> l"
proof -
  from assms have "\<exists>a. group_of Engine sp = Some a \<and> n \<le> a"
    "\<exists>a. group_of Transmission sp = Some a \<and> n \<le> a"
    "\<exists>a. group_of Chassis sp = Some a \<and> n \<le> a"
    "\<exists>a. group_of Dimensions sp = Some a \<and> n \<le> a"
    "\<exists>a. group_of Performance sp = Some a \<and> n \<le> a"
    "\<exists>a. group_of Electrical sp = Some a \<and> n \<le> a"
    unfolding all_fresh_def by blast+
  then show ?thesis using that by auto
qed

lemma merge_specifications_st_fresh:
  assumes "all_fresh n s1"
  shows "fst (merge_specifications_st s1 s2 pt \<sigma>) = s1 \<and>
         kept_below n \<sigma> (snd (merge_specifications_st s1 s2 pt \<sigma>))"
proof -
  from assms obtain e t c d p l where g:
    "engine s1 = Some e" "n \<le> e" "transmission s1 = Some t" "n \<le> t"
    "chassis s1 = Some c" "n \<le> c" "dimensions s1 = Some d" "n \<le> d"
    "performance s1 = Some p" "n \<le> p" "electrical s1 = Some l" "n \<le> l"
    by (rule all_fresh_groups)
  define \<sigma>1 where "\<sigma>1 = snd (merge_specs_st (Some e) (engine s2) pt \<sigma>)"
  define \<sigma>2 where "\<sigma>2 = snd (merge_specs_st (Some t) (transmission s2) pt \<sigma>1)"
  define \<sigma>3 where "\<sigma>3 = snd (merge_specs_st (Some c) (chassis s2) pt \<sigma>2)"
  define \<sigma>4 where "\<sigma>4 = snd (merge_specs_st (Some d) (dimensions s2) pt \<sigma>3)"
  define \<sigma>5 where "\<sigma>5 = snd (merge_specs_st (Some p) (performance s2) pt \<sigma>4)"
  define \<sigma>6 where "\<sigma>6 = snd (merge_specs_st (Some l) (electrical s2) pt \<sigma>5)"
  have k: "kept_below n \<sigma> \<sigma>1" "kept_below n \<sigma>1 \<sigma>2" "kept_below n \<sigma>2 \<sigma>3"
    "kept_below n \<sigma>3 \<sigma>4" "kept_below n \<sigma>4 \<sigma>5" "kept_below n \<sigma>5 \<sigma>6"
    unfolding \<sigma>1_def \<sigma>2_def \<sigma>3_def \<sigma>4_def \<sigma>5_def \<sigma>6_def
    using merge_specs_st_fresh g by blast+
  have r: "merge_specs_st (Some e) (engine s2) pt \<sigma> = (Some e, \<sigma>1)"
    "merge_specs_st (Some t) (transmission s2) pt \<sigma>1 = (Some t, \<sigma>2)"
    "merge_specs_st (Some c) (chassis s2) pt \<sigma>2 = (Some c, \<sigma>3)"
    "merge_specs_st (Some d) (dimensions s2) pt \<sigma>3 = (Some d, \<sigma>4)"
    "merge_specs_st (Some p) (performance s2) pt \<sigma>4 = (Some p, \<sigma>5)"
    "merge_specs_st (Some l) (electrical s2) pt \<sigma>5 = (Some l, \<sigma>6)"
    unfolding \<sigma>1_def \<sigma>2_def \<sigma>3_def \<sigma>4_def \<sigma>5_def \<sigma>6_def
    using merge_specs_st_fresh[OF g(2)] merge_specs_st_fresh[OF g(4)]
      merge_specs_st_fresh[OF g(6)] merge_specs_st_fresh[OF g(8)]
      merge_specs_st_fresh[OF g(10)] merge_specs_st_fresh[OF g(12)]
    by (simp_all add: prod_eq_iff)
  have res: "merge_specifications_st s1 s2 pt \<sigma> =
      (\<lparr>engine = Some e, transmission = Some t, chassis = Some c, dimensions = Some d,
        performance = Some p, electrical = Some l\<rparr>, \<sigma>6)"
    by (simp add: merge_specifications_st_def g r)
  have "kept_below n \<sigma> \<sigma>6"
    using k kept_below_trans by blast
  moreover have "\<lparr>engine = Some e, transmission = Some t, chassis = Some c, dimensions = Some d,
        performance = Some p, electrical = Some l\<rparr> = s1"
    using g by simp
  ultimately show ?thesis by (simp add: res)
qed

lemma merge_page_st_fresh:
  assumes "all_fresh n (specifications merged)"
    and "merge_page_st set_order merged page \<sigma> = (r, \<sigma>')"
  shows "kept_below n \<sigma> \<sigma>' \<and>
         (\<forall>m. r = Inr m \<longrightarrow> specifications m = specifications merged)"
proof -
  let ?pt = "case page_type page of None \<Rightarrow> ''other'' | Some t \<Rightarrow> t"
  let ?ms = "merge_specifications_st (specifications merged)
               (specifications (bike_data page)) ?pt \<sigma>"
  have f: "fst ?ms = specifications merged" and k: "kept_below n \<sigma> (snd ?ms)"
    using merge_specifications_st_fresh[OF assms(1)] by blast+
  from assms(2) have "\<sigma>' = snd ?ms"
    by (auto simp: merge_page_st_def Let_def split: prod.splits sum.splits)
  moreover from assms(2) have "\<forall>m. r = Inr m \<longrightarrow> specifications m = fst ?ms"
    by (auto simp: merge_page_st_def Let_def split: prod.splits sum.splits)
  ultimately show ?thesis using f k by simp
qed

lemma merge_pages_st_fresh:
  "all_fresh n (specifications merged) \<Longrightarrow>
   merge_pages_st set_order merged rest \<sigma> = (r, \<sigma>') \<Longrightarrow> kept_below n \<sigma> \<sigma>'"
proof (induction rest arbitrary: merged \<sigma>)
  case Nil
  then show ?case by simp
next
  case (Cons page rest)
  obtain r1 \<sigma>1 where s: "merge_page_st set_order merged page \<sigma> = (r1, \<sigma>1)"
    by (cases "merge_page_st set_order merged page \<sigma>")
  have k1: "kept_below n \<sigma> \<sigma>1"
    and sp: "\<forall>m. r1 = Inr m \<longrightarrow> specifications m = specifications merged"
    using merge_page_st_fresh[OF Cons.prems(1) s] by blast+
  show ?case
  proof (cases r1)
    case (Inl e)
    then have "\<sigma>' = \<sigma>1" using Cons.prems(2) s by simp
    then show ?thesis using k1 by simp
  next
    case (Inr m)
    then have rest: "merge_pages_st set_order m rest \<sigma>1 = (r, \<sigma>')"
      using Cons.prems(2) s by simp
    have "all_fresh n (specifications m)"
      using sp Inr Cons.prems(1) by simp
    then have "kept_below n \<sigma>1 \<sigma>'"
      using Cons.IH rest by blast
    then show ?thesis using k1 kept_below_trans by blast
  qed
qed

lemma copy_group_fresh:
  assumes "copy_inv n ms"
  shows "copy_inv n (snd (copy_group (Some a) ms)) \<and>
         (\<exists>a'. fst (copy_group (Some a) ms) = Some a' \<and> n \<le> a') \<and>
         kept_below n (snd ms) (snd (snd (copy_group (Some a) ms)))"
proof (cases "map_of (fst ms) a")
  case None
  then show ?thesis
    using assms
    by (auto simp: copy_group_def copy_inv_def alloc_def kept_below_def Let_def)
next
  case (Some a')
  then have "(a, a') \<in> set (fst ms)" by (rule map_of_SomeD)
  then have "n \<le> a'" using assms by (auto simp: copy_inv_def)
  then show ?thesis
    using assms Some by (simp add: copy_group_def)
qed

lemma model_copy_deep_fresh:
  assumes "\<forall>g. group_of g (specifications bd) \<noteq> None"
  shows "all_fresh (next_addr \<sigma>) (specifications (fst (model_copy_deep bd \<sigma>))) \<and>
         kept_below (next_addr \<sigma>) \<sigma> (snd (model_copy_deep bd \<sigma>))"
proof -
  let ?n = "next_addr \<sigma>"
  let ?sp = "specifications bd"
  from assms have "group_of Engine ?sp \<noteq> None" "group_of Transmission ?sp \<noteq> None"
    "group_of Chassis ?sp \<noteq> None" "group_of Dimensions ?sp \<noteq> None"
    "group_of Performance ?sp \<noteq> None" "group_of Electrical ?sp \<noteq> None"
    by blast+
  then obtain e t c d p l where g:
    "engine ?sp = Some e" "transmission ?sp = Some t" "chassis ?sp = Some c"
    "dimensions ?sp = Some d" "performance ?sp = Some p" "electrical ?sp = Some l"
    by auto
  define m1 where "m1 = copy_group (Some e) ([], \<sigma>)"
  define m2 where "m2 = copy_group (Some t) (snd m1)"
  define m3 where "m3 = copy_group (Some c) (snd m2)"
  define m4 where "m4 = copy_group (Some d) (snd m3)"
  define m5 where "m5 = copy_group (Some p) (snd m4)"
  define m6 where "m6 = copy_group (Some l) (snd m5)"
  have i0: "copy_inv ?n ([], \<sigma>)" by (simp add: copy_inv_def)
  have i1: "copy_inv ?n (snd m1)" and f1: "\<exists>a'. fst m1 = Some a' \<and> ?n \<le> a'"
    and k1: "kept_below ?n \<sigma> (snd (snd m1))"
    unfolding m1_def using copy_group_fresh[OF i0, of e] by simp_all
  have i2: "copy_inv ?n (snd m2)" and f2: "\<exists>a'. fst m2 = Some a' \<and> ?n \<le> a'"
    and k2: "kept_below ?n (snd (snd m1)) (snd (snd m2))"
    unfolding m2_def using copy_group_fresh[OF i1, of t] by simp_all
  have i3: "copy_inv ?n (snd m3)" and f3: "\<exists>a'. fst m3 = Some a' \<and> ?n \<le> a'"
    and k3: "kept_below ?n (snd (snd m2)) (snd (snd m3))"
    unfolding m3_def using copy_group_fresh[OF i2, of c] by simp_all
  have i4: "copy_inv ?n (snd m4)" and f4: "\<exists>a'. fst m4 = Some a' \<and> ?n \<le> a'"
    and k4: "kept_below ?n (snd (snd m3)) (snd (snd m4))"
    unfolding m4_def using copy_group_fresh[OF i3, of d] by simp_all
  have i5: "copy_inv ?n (snd m5)" and f5: "\<exists>a'. fst m5 = Some a' \<and> ?n \<le> a'"
    and k5: "kept_below ?n (snd (snd m4)) (snd (snd m5))"
    unfolding m5_def using copy_group_fresh[OF i4, of p] by simp_all
  have f6: "\<exists>a'. fst m6 = Some a' \<and> ?n \<le> a'"
    and k6: "kept_below ?n (snd (snd m5)) (snd (snd m6))"
    unfolding m6_def using copy_group_fresh[OF i5, of l] by simp_all
  have res: "model_copy_deep bd \<sigma> =
      (bd\<lparr>specifications :=
           \<lparr>engine = fst m1, transmission = fst m2, chassis = fst m3, dimensions = fst m4,
            performance = fst m5, electrical = fst m6\<rparr>\<rparr>,
       snd (snd m6))"
    by (simp add: model_copy_deep_def g m1_def m2_def m3_def m4_def m5_def m6_def Let_def
        split_def)
  have "kept_below ?n \<sigma> (snd (snd m6))"
    using k1 k2 k3 k4 k5 k6 kept_below_trans by blast
  moreover have "all_fresh ?n \<lparr>engine = fst m1, transmission = fst m2, chassis = fst m3,
      dimensions = fst m4, performance = fst m5, electrical = fst m6\<rparr>"
    unfolding all_fresh_def
  proof
    fix g
    show "\<exists>a. group_of g \<lparr>engine = fst m1, transmission = fst m2, chassis = fst m3,
      dimensions = fst m4, performance = fst m5, electrical = fst m6\<rparr> = Some a \<and> ?n \<le> a"
      using f1 f2 f3 f4 f5 f6 by (cases g) simp_all
  qed
  ultimately show ?thesis by (simp add: res)
qed

text \<open>
  Where the record of highest priority has all six groups, the accumulator refers to
  copies only: the merge leaves every object that existed before it as it was, and the
  list of the caller is the sorted list.
\<close>

lemma merge_keeps_inputs:
  assumes "2 \<le> length pages_data"
    and "sort_pages pages_data = first_page # rest"
    and "\<forall>g. group_of g (specifications (bike_data first_page)) \<noteq> None"
    and "merge_bike_data_st set_order pages_data \<sigma> = (r, pages', \<sigma>')"
  shows "kept_below (next_addr \<sigma>) \<sigma> \<sigma>' \<and> pages' = sort_pages pages_data"
proof -
  let ?n = "next_addr \<sigma>"
  obtain p1 p2 ps where ps: "pages_data = p1 # p2 # ps"
    using assms(1) by (cases pages_data; cases "tl pages_data") auto
  obtain merged0 \<sigma>0 where c: "model_copy_deep (bike_data first_page) \<sigma> = (merged0, \<sigma>0)"
    by (cases "model_copy_deep (bike_data first_page) \<sigma>")
  have fr: "all_fresh ?n (specifications merged0)" and k0: "kept_below ?n \<sigma> \<sigma>0"
    using model_copy_deep_fresh[OF assms(3), of \<sigma>] c by simp_all
  obtain r1 \<sigma>1 where m: "merge_pages_st set_order merged0 rest \<sigma>0 = (r1, \<sigma>1)"
    by (cases "merge_pages_st set_order merged0 rest \<sigma>0")
  have k1: "kept_below ?n \<sigma>0 \<sigma>1"
    using merge_pages_st_fresh[OF fr m] .
  have s: "sort_pages (p1 # p2 # ps) = first_page # rest"
    using assms(2) ps by simp
  have "merge_bike_data_st set_order (p1 # p2 # ps) \<sigma> = (r, pages', \<sigma>')"
    using assms(4) ps by simp
  then have "\<sigma>' = \<sigma>1 \<and> pages' = first_page # rest"
    by (cases r1) (simp_all add: merge_bike_data_st_def s c m)
  then show ?thesis
    using k0 k1 kept_below_trans assms(2) by auto
qed

text \<open>
  C10. The claim is that a merge of two or more records leaves every input record and
  its specification objects unmodified. The statement below evaluates the merge on three
  pages of types specs, main and gallery, where the specs record has no engine group,
  the main record holds engine object 0 (no \<open>max_power_kw\<close>) and the gallery record holds
  engine object 1 (\<open>max_power_kw\<close> 80): the merged record refers to object 0 itself, and
  after the merge object 0, which belongs to the main record, has \<open>max_power_kw\<close> 80.
\<close>

theorem merge_modifies_input_object:
  "attrs (objs sample_store 0) ''max_power_kw'' = None \<and>
   (case merge_bike_data_st (\<lambda>xs. xs)
       [ref_page ''specs'' None, ref_page ''main'' (Some 0), ref_page ''gallery'' (Some 1)]
       sample_store of
      (r, ps, \<sigma>') \<Rightarrow>
        (case r of Inl e \<Rightarrow> False | Inr m \<Rightarrow> engine (specifications m) = Some 0) \<and>
        attrs (objs \<sigma>' 0) ''max_power_kw'' = Some (VFloat (double_of_decimal 80 0)))"
  by code_simp

section \<open>Properties of the classifier\<close>

lemma indicators_loop_iff:
  "indicators_loop inds u c = (\<exists>i\<in>set inds. py_in i u \<or> py_in i c)"
  by (induction inds) auto

lemma page_types_loop_find:
  "page_types_loop table u c =
     (case find (page_type_matches u c) table of None \<Rightarrow> ''main'' | Some entry \<Rightarrow> fst entry)"
  by (induction table u c rule: page_types_loop.induct)
     (simp_all add: indicators_loop_iff page_type_matches_def)

lemma page_types_loop_range:
  "page_types_loop table u c \<in> insert ''main'' (fst ` set table)"
  by (induction table u c rule: page_types_loop.induct) auto

text \<open>
  An entry matches through the URL or through the content alike: content that matches
  an earlier entry wins over a URL that matches a later one.
\<close>

lemma get_page_type_table_order:
  "get_page_type ''https://ducati.com/gallery'' (Some ''Full specification'') = ''specs''"
  by code_simp

text \<open>
  C8. For every URL and content, \<open>get_page_type\<close> returns one of main, specs, gallery,
  features, insights, stories, other; it is the page type of the first entry of the
  ordered indicator table one of whose keywords occurs in the lower-cased URL or in the
  lower-cased content, and main when no entry matches.
\<close>

theorem get_page_type_first_match:
  "get_page_type page_url content \<in>
     set [''main'', ''specs'', ''gallery'', ''features'', ''insights'', ''stories'', ''other''] \<and>
   get_page_type page_url content =
     (case find (page_type_matches (py_lower page_url)
                   (case content of None \<Rightarrow> [] | Some c \<Rightarrow> py_lower c))
             page_type_indicators of
        None \<Rightarrow> ''main''
      | Some entry \<Rightarrow> fst entry)"
proof
  have "get_page_type page_url content \<in> insert ''main'' (fst ` set page_type_indicators)"
    unfolding get_page_type_def Let_def by (rule page_types_loop_range)
  then show "get_page_type page_url content \<in>
     set [''main'', ''specs'', ''gallery'', ''features'', ''insights'', ''stories'', ''other'']"
    unfolding page_type_indicators_def by auto
  have "(case content of None \<Rightarrow> [] | Some c \<Rightarrow> if c = [] then [] else py_lower c) =
        (case content of None \<Rightarrow> [] | Some c \<Rightarrow> py_lower c)"
    by (simp add: py_lower_def split: option.splits)
  then show "get_page_type page_url content =
     (case find (page_type_matches (py_lower page_url)
                   (case content of None \<Rightarrow> [] | Some c \<Rightarrow> py_lower c))
             page_type_indicators of
        None \<Rightarrow> ''main''
      | Some entry \<Rightarrow> fst entry)"
    by (simp add: get_page_type_def page_types_loop_find)
qed

section \<open>Properties of the image downloader\<close>

lemma download_image_known:
  "reply c = Response status image_data \<Longrightarrow> sha256 image_data \<in> image_hashes self \<Longrightarrow>
     download_image sha256 pl self c = (None, self)"
  by (simp add: download_image_def)

lemma download_image_hashes_mono:
  "download_image sha256 pl self c = (r, self') \<Longrightarrow> image_hashes self \<subseteq> image_hashes self'"
  by (auto simp: download_image_def write_file_def Let_def
      split: response.splits if_splits io_result.splits)

lemma download_image_success:
  "download_image sha256 pl self c = (Some p, self') \<Longrightarrow>
     sha256 (fetched c) \<notin> image_hashes self \<and> sha256 (fetched c) \<in> image_hashes self'"
  by (auto simp: download_image_def write_file_def fetched_def Let_def
      split: response.splits if_splits io_result.splits)

lemma download_images_length:
  "download_images sha256 pl self cs = (rs, self') \<Longrightarrow> length rs = length cs"
  by (induction cs arbitrary: self rs self') (auto simp: Let_def split: prod.splits)

lemma download_images_distinct:
  "download_images sha256 pl self cs = (rs, self') \<Longrightarrow>
     distinct (map sha256 (downloaded cs rs)) \<and>
     sha256 ` set (downloaded cs rs) \<inter> image_hashes self = {} \<and>
     image_hashes self \<subseteq> image_hashes self'"
proof (induction cs arbitrary: self rs self')
  case Nil
  then show ?case by (simp add: downloaded_def)
next
  case (Cons c cs)
  obtain r s1 where step: "download_image sha256 pl self c = (r, s1)"
    by (cases "download_image sha256 pl self c")
  obtain rs1 s2 where rest: "download_images sha256 pl s1 cs = (rs1, s2)"
    by (cases "download_images sha256 pl s1 cs")
  have rs: "rs = r # rs1" and s2: "self' = s2"
    using Cons.prems step rest by simp_all
  note ih = Cons.IH[OF rest]
  have mono: "image_hashes self \<subseteq> image_hashes s1"
    using step by (rule download_image_hashes_mono)
  show ?case
  proof (cases r)
    case None
    then have "downloaded (c # cs) rs = downloaded cs rs1"
      by (simp add: downloaded_def rs)
    then show ?thesis using ih mono s2 by auto
  next
    case (Some p)
    then have d: "downloaded (c # cs) rs = fetched c # downloaded cs rs1"
      by (simp add: downloaded_def rs)
    have h: "sha256 (fetched c) \<notin> image_hashes self" "sha256 (fetched c) \<in> image_hashes s1"
      using download_image_success step Some by blast+
    show ?thesis using ih mono s2 h by (auto simp: d)
  qed
qed

text \<open>
  C3. A call of \<open>download_image\<close> whose fetched bytes hash to a value that is already
  in the hash set of the downloader returns no path and leaves the downloader and the
  files as they are. Hence, for every sequence of calls from any state of the
  downloader, the images for which a path is returned have pairwise different hashes,
  none of them in the hash set at the start: no content is written twice in one run.
\<close>

theorem download_dedup:
  "(reply c = Response status image_data \<and> sha256 image_data \<in> image_hashes self \<longrightarrow>
      download_image sha256 pl self c = (None, self)) \<and>
   (\<forall>rs self'. download_images sha256 pl self cs = (rs, self') \<longrightarrow>
      distinct (map sha256 (downloaded cs rs)) \<and>
      sha256 ` set (downloaded cs rs) \<inter> image_hashes self = {})"
  using download_image_known download_images_distinct by blast


theorem download_dedup_witness:
  "(let d0 = new_downloader ''images'' (double_of_decimal 10 0) Map.empty;
        c1 = sample_call ''https://x/a.PNG'' 0 ''abc'';
        c2 = sample_call ''https://x/b.jpg'' 1 ''abc'';
        c3 = sample_call ''https://x/c.webp'' 2 ''xyz'';
        d1 = snd (download_image (\<lambda>b. b) sample_pathlib d0 c1)
    in download_image (\<lambda>b. b) sample_pathlib d1 c2 = (None, d1) \<and>
       distinct (downloaded [c1, c2, c3]
         (fst (download_images (\<lambda>b. b) sample_pathlib d0 [c1, c2, c3]))))"
proof -
  define d0 where "d0 = new_downloader ''images'' (double_of_decimal 10 0) Map.empty"
  define c1 where "c1 = sample_call ''https://x/a.PNG'' 0 ''abc''"
  define c2 where "c2 = sample_call ''https://x/b.jpg'' 1 ''abc''"
  define c3 where "c3 = sample_call ''https://x/c.webp'' 2 ''xyz''"
  define d1 where "d1 = snd (download_image (\<lambda>b. b) sample_pathlib d0 c1)"
  have r: "reply c2 = Response 200 ''abc''"
    by (simp add: c2_def sample_call_def)
  have h: "(\<lambda>b. b) ''abc'' \<in> image_hashes d1"
    by (simp add: d1_def d0_def c1_def download_image_def write_file_def sample_call_def
        new_downloader_def Let_def)
  have a: "download_image (\<lambda>b. b) sample_pathlib d1 c2 = (None, d1)"
    using download_dedup[of c2 200 "''abc''" "\<lambda>b. b" d1 sample_pathlib "[]"] r h by blast
  obtain rs d3 where run: "download_images (\<lambda>b. b) sample_pathlib d0 [c1, c2, c3] = (rs, d3)"
    by (cases "download_images (\<lambda>b. b) sample_pathlib d0 [c1, c2, c3]")
  then have "distinct (map (\<lambda>b. b) (downloaded [c1, c2, c3] rs))"
    using download_dedup[of c2 200 "''abc''" "\<lambda>b. b" d0 sample_pathlib "[c1, c2, c3]"] by blast
  with run have b: "distinct (downloaded [c1, c2, c3]
      (fst (download_images (\<lambda>b. b) sample_pathlib d0 [c1, c2, c3])))"
    by (simp only: fst_conv list.map_ident)
  show ?thesis
    unfolding Let_def using a b
    unfolding d0_def c1_def c2_def c3_def d1_def by blast
qed

section \<open>Properties of the discovery engine\<close>

lemma navigation_loop_success:
  "fst (navigation_loop nav us) = (\<exists>u\<in>set us. accessible (nav u))"
  by (induction us) (auto simp: accessible_def split: navigation.splits prod.splits)

lemma navigation_loop_logged:
  "u \<in> set (takeWhile (\<lambda>u. \<not> accessible (nav u)) us) \<Longrightarrow>
     failure_logged u (snd (navigation_loop nav us))"
proof (induction us)
  case Nil
  then show ?case by simp
next
  case (Cons a us)
  show ?case
  proof (cases "accessible (nav a)")
    case True
    then show ?thesis using Cons.prems by simp
  next
    case False
    have here: "failure_logged a (snd (navigation_loop nav (a # us)))"
      using False
      by (auto simp: accessible_def failure_logged_def split: navigation.splits prod.splits)
    have later: "failure_logged u (snd (navigation_loop nav us)) \<Longrightarrow>
        failure_logged u (snd (navigation_loop nav (a # us)))"
      using False
      by (auto simp: accessible_def failure_logged_def split: navigation.splits prod.splits)
    from Cons.prems False have "u = a \<or> u \<in> set (takeWhile (\<lambda>u. \<not> accessible (nav u)) us)"
      by auto
    then show ?thesis using here later Cons.IH by blast
  qed
qed

text \<open>
  The claim C4 ties the fatal error to the discovery strategies: it is raised only when
  every strategy fails to produce a page. On a site where the browser gets status 403 on
  every entry URL while the sitemap, which is fetched by a separate HTTP client, lists a
  page, the run raises the error although the sitemap strategy would produce that page:
  no strategy is run at all.
\<close>

theorem discovery_fatal_counterexample:
  "raised (discover_all_pages ''https://www.ducati.com'' True
       (sample_agent (\<lambda>u. Loaded (Some 403) [] [])) fresh_state) = Some AllUrlsBlocked \<and>
   check_sitemap (sample_agent (\<lambda>u. Loaded (Some 403) [] [])) =
     [''https://www.ducati.com/ww/en/bikes/monster'']"
  by (simp add: discover_all_pages_def urls_to_try_def sample_agent_def)

text \<open>
  C4, as the code has it. With the browser initialised, the fatal error is raised exactly
  when none of the four entry URLs loads an accessible page, before any strategy runs.
  An entry URL that fails before the first one that loads is logged and skipped. Once an
  entry URL has loaded, the run raises nothing and yields what the strategies return,
  whatever they return.
\<close>

theorem fatal_iff_entry_urls_blocked:
  "raised (discover_all_pages base_url page_initialized agent st) =
     (if \<not> page_initialized then Some BrowserNotInitialized
      else if \<exists>u\<in>set (urls_to_try base_url). accessible (navigate agent u) then None
      else Some AllUrlsBlocked) \<and>
   (\<forall>u\<in>set (takeWhile (\<lambda>u. \<not> accessible (navigate agent u)) (urls_to_try base_url)).
      page_initialized \<longrightarrow>
      failure_logged u (navigation_log (discover_all_pages base_url page_initialized agent st))) \<and>
   (page_initialized \<and> (\<exists>u\<in>set (urls_to_try base_url). accessible (navigate agent u)) \<longrightarrow>
      yielded (discover_all_pages base_url page_initialized agent st) =
        fst (run_strategies agent st))"
proof -
  obtain ok messages where nl: "navigation_loop (navigate agent) (urls_to_try base_url) = (ok, messages)"
    by (cases "navigation_loop (navigate agent) (urls_to_try base_url)")
  have ok: "ok = (\<exists>u\<in>set (urls_to_try base_url). accessible (navigate agent u))"
    using navigation_loop_success[of "navigate agent" "urls_to_try base_url"] nl by simp
  have lg: "\<forall>u\<in>set (takeWhile (\<lambda>u. \<not> accessible (navigate agent u)) (urls_to_try base_url)).
      failure_logged u messages"
    using navigation_loop_logged[of _ "navigate agent" "urls_to_try base_url"] nl by simp
  show ?thesis
    using ok lg by (auto simp: discover_all_pages_def nl split: prod.splits)
qed

theorem fatal_iff_entry_urls_blocked_witness:
  "(let agent = sample_agent (\<lambda>u. if u = ''https://www.ducati.com/ca/en/home''
                                  then NavigationRaises else Loaded (Some 200) ''Ducati'' []);
        run = discover_all_pages ''https://www.ducati.com'' True agent fresh_state
    in raised run = None \<and>
       failure_logged ''https://www.ducati.com/ca/en/home'' (navigation_log run) \<and>
       yielded run = [''https://www.ducati.com/ww/en/bikes/monster''])"
proof -
  define agent where "agent = sample_agent (\<lambda>u. if u = ''https://www.ducati.com/ca/en/home''
                                  then NavigationRaises else Loaded (Some 200) ''Ducati'' [])"
  define run where "run = discover_all_pages ''https://www.ducati.com'' True agent fresh_state"
  have acc: "accessible (navigate agent ''https://www.ducati.com/us/en/home'')"
    by (simp add: agent_def sample_agent_def accessible_def py_lower_def)
  have nacc: "\<not> accessible (navigate agent ''https://www.ducati.com/ca/en/home'')"
    by (simp add: agent_def sample_agent_def accessible_def)
  have mem: "''https://www.ducati.com/us/en/home'' \<in> set (urls_to_try ''https://www.ducati.com'')"
    by (simp add: urls_to_try_def)
  have tw: "''https://www.ducati.com/ca/en/home'' \<in>
      set (takeWhile (\<lambda>u. \<not> accessible (navigate agent u)) (urls_to_try ''https://www.ducati.com''))"
    using nacc by (simp add: urls_to_try_def)
  have ys: "fst (run_strategies agent fresh_state) = [''https://www.ducati.com/ww/en/bikes/monster'']"
    by (simp add: run_strategies_def agent_def sample_agent_def fresh_state_def)
  have "raised run = None \<and>
       failure_logged ''https://www.ducati.com/ca/en/home'' (navigation_log run) \<and>
       yielded run = [''https://www.ducati.com/ww/en/bikes/monster'']"
    using fatal_iff_entry_urls_blocked[of "''https://www.ducati.com''" True agent fresh_state]
      acc mem tw ys unfolding run_def by auto
  then show ?thesis
    unfolding Let_def agent_def run_def by blast
qed

section \<open>Properties of the unit conversion\<close>

lemma disj_newton_meter_kilowatt: "t \<in> set newton_meter_units \<Longrightarrow> t \<notin> set kilowatt_units"
  by (auto simp: newton_meter_units_def kilowatt_units_def)

lemma disj_millimeter_kilowatt: "t \<in> set millimeter_units \<Longrightarrow> t \<notin> set kilowatt_units"
  by (auto simp: millimeter_units_def kilowatt_units_def)

lemma disj_millimeter_newton_meter: "t \<in> set millimeter_units \<Longrightarrow> t \<notin> set newton_meter_units"
  by (auto simp: millimeter_units_def newton_meter_units_def)

lemma disj_kilogram_kilowatt: "t \<in> set kilogram_units \<Longrightarrow> t \<notin> set kilowatt_units"
  by (auto simp: kilogram_units_def kilowatt_units_def)

lemma disj_kilogram_newton_meter: "t \<in> set kilogram_units \<Longrightarrow> t \<notin> set newton_meter_units"
  by (auto simp: kilogram_units_def newton_meter_units_def)

lemma disj_kilogram_millimeter: "t \<in> set kilogram_units \<Longrightarrow> t \<notin> set millimeter_units"
  by (auto simp: kilogram_units_def millimeter_units_def)

lemma disj_kmh_kilowatt: "t \<in> set kmh_units \<Longrightarrow> t \<notin> set kilowatt_units"
  by (auto simp: kmh_units_def kilowatt_units_def)

lemma disj_kmh_newton_meter: "t \<in> set kmh_units \<Longrightarrow> t \<notin> set newton_meter_units"
  by (auto simp: kmh_units_def newton_meter_units_def)

lemma disj_kmh_millimeter: "t \<in> set kmh_units \<Longrightarrow> t \<notin> set millimeter_units"
  by (auto simp: kmh_units_def millimeter_units_def)

lemma disj_kmh_kilogram: "t \<in> set kmh_units \<Longrightarrow> t \<notin> set kilogram_units"
  by (auto simp: kmh_units_def kilogram_units_def)

lemma disj_liter_kilowatt: "t \<in> set liter_units \<Longrightarrow> t \<notin> set kilowatt_units"
  by (auto simp: liter_units_def kilowatt_units_def)

lemma disj_liter_newton_meter: "t \<in> set liter_units \<Longrightarrow> t \<notin> set newton_meter_units"
  by (auto simp: liter_units_def newton_meter_units_def)

lemma disj_liter_millimeter: "t \<in> set liter_units \<Longrightarrow> t \<notin> set millimeter_units"
  by (auto simp: liter_units_def millimeter_units_def)

lemma disj_liter_kilogram: "t \<in> set liter_units \<Longrightarrow> t \<notin> set kilogram_units"
  by (auto simp: liter_units_def kilogram_units_def)

lemma disj_liter_kmh: "t \<in> set liter_units \<Longrightarrow> t \<notin> set kmh_units"
  by (auto simp: liter_units_def kmh_units_def)

lemma disj_l100km_kilowatt: "t \<in> set l100km_units \<Longrightarrow> t \<notin> set kilowatt_units"
  by (auto simp: l100km_units_def kilowatt_units_def)

lemma disj_l100km_newton_meter: "t \<in> set l100km_units \<Longrightarrow> t \<notin> set newton_meter_units"
  by (auto simp: l100km_units_def newton_meter_units_def)

lemma disj_l100km_millimeter: "t \<in> set l100km_units \<Longrightarrow> t \<notin> set millimeter_units"
  by (auto simp: l100km_units_def millimeter_units_def)

lemma disj_l100km_kilogram: "t \<in> set l100km_units \<Longrightarrow> t \<notin> set kilogram_units"
  by (auto simp: l100km_units_def kilogram_units_def)

lemma disj_l100km_kmh: "t \<in> set l100km_units \<Longrightarrow> t \<notin> set kmh_units"
  by (auto simp: l100km_units_def kmh_units_def)

lemma disj_l100km_liter: "t \<in> set l100km_units \<Longrightarrow> t \<notin> set liter_units"
  by (auto simp: l100km_units_def liter_units_def)

lemma disj_foot_inch: "u \<in> set foot_units \<Longrightarrow> u \<notin> set inch_units"
  by (auto simp: foot_units_def inch_units_def)

lemma src_not_tgt_power: "u \<in> set power_units \<Longrightarrow> u \<notin> set kilowatt_units"
  by (auto simp: power_units_def kilowatt_units_def)

lemma src_not_tgt_torque: "u \<in> set torque_units \<Longrightarrow> u \<notin> set newton_meter_units"
  by (auto simp: torque_units_def newton_meter_units_def)

lemma src_not_tgt_inch: "u \<in> set inch_units \<Longrightarrow> u \<notin> set millimeter_units"
  by (auto simp: inch_units_def millimeter_units_def)

lemma src_not_tgt_foot: "u \<in> set foot_units \<Longrightarrow> u \<notin> set millimeter_units"
  by (auto simp: foot_units_def millimeter_units_def)

lemma src_not_tgt_pound: "u \<in> set pound_units \<Longrightarrow> u \<notin> set kilogram_units"
  by (auto simp: pound_units_def kilogram_units_def)

lemma src_not_tgt_mph: "u \<in> set mph_units \<Longrightarrow> u \<notin> set kmh_units"
  by (auto simp: mph_units_def kmh_units_def)

lemma src_not_tgt_gallon: "u \<in> set gallon_units \<Longrightarrow> u \<notin> set liter_units"
  by (auto simp: gallon_units_def liter_units_def)

lemma src_not_tgt_mpg: "u \<in> set mpg_units \<Longrightarrow> u \<notin> set l100km_units"
  by (auto simp: mpg_units_def l100km_units_def)

lemmas units_disjoint = disj_newton_meter_kilowatt disj_millimeter_kilowatt disj_millimeter_newton_meter disj_kilogram_kilowatt disj_kilogram_newton_meter disj_kilogram_millimeter disj_kmh_kilowatt disj_kmh_newton_meter disj_kmh_millimeter disj_kmh_kilogram disj_liter_kilowatt disj_liter_newton_meter disj_liter_millimeter disj_liter_kilogram disj_liter_kmh disj_l100km_kilowatt disj_l100km_newton_meter disj_l100km_millimeter disj_l100km_kilogram disj_l100km_kmh disj_l100km_liter disj_foot_inch

lemmas source_not_target = src_not_tgt_power src_not_tgt_torque src_not_tgt_inch src_not_tgt_foot src_not_tgt_pound src_not_tgt_mph src_not_tgt_gallon src_not_tgt_mpg

lemma rule_power:
  "py_strip (py_lower unit) \<in> set power_units \<Longrightarrow>
   py_strip (py_lower target_unit) \<in> set kilowatt_units \<Longrightarrow>
   convert_to_metric val unit target_unit =
     Inr (Some (py_round (float_mul val (double_of_decimal 7457 4)) 2))"
  by (simp add: convert_to_metric_def Let_def convert_power_hp_to_kw_def HP_TO_KW_def)

lemma rule_torque:
  "py_strip (py_lower unit) \<in> set torque_units \<Longrightarrow>
   py_strip (py_lower target_unit) \<in> set newton_meter_units \<Longrightarrow>
   convert_to_metric val unit target_unit =
     Inr (Some (py_round (float_mul val (double_of_decimal 13558 4)) 2))"
  by (simp add: convert_to_metric_def Let_def convert_torque_lbft_to_nm_def LBFT_TO_NM_def units_disjoint)

lemma rule_inch:
  "py_strip (py_lower unit) \<in> set inch_units \<Longrightarrow>
   py_strip (py_lower target_unit) \<in> set millimeter_units \<Longrightarrow>
   convert_to_metric val unit target_unit =
     Inr (Some (py_round (float_mul val (double_of_decimal 254 1)) 1))"
  by (simp add: convert_to_metric_def Let_def convert_length_inches_to_mm_def INCH_TO_MM_def units_disjoint)

lemma rule_foot:
  "py_strip (py_lower unit) \<in> set foot_units \<Longrightarrow>
   py_strip (py_lower target_unit) \<in> set millimeter_units \<Longrightarrow>
   convert_to_metric val unit target_unit =
     Inr (Some (py_round (float_mul val (double_of_decimal 3048 1)) 1))"
  by (simp add: convert_to_metric_def Let_def convert_length_feet_to_mm_def FOOT_TO_MM_def units_disjoint)

lemma rule_pound:
  "py_strip (py_lower unit) \<in> set pound_units \<Longrightarrow>
   py_strip (py_lower target_unit) \<in> set kilogram_units \<Longrightarrow>
   convert_to_metric val unit target_unit =
     Inr (Some (py_round (float_mul val (double_of_decimal 453592 6)) 2))"
  by (simp add: convert_to_metric_def Let_def convert_weight_lbs_to_kg_def LBS_TO_KG_def units_disjoint)

lemma rule_mph:
  "py_strip (py_lower unit) \<in> set mph_units \<Longrightarrow>
   py_strip (py_lower target_unit) \<in> set kmh_units \<Longrightarrow>
   convert_to_metric val unit target_unit =
     Inr (Some (py_round (float_mul val (double_of_decimal 160934 5)) 2))"
  by (simp add: convert_to_metric_def Let_def convert_speed_mph_to_kmh_def MPH_TO_KMH_def units_disjoint)

lemma rule_gallon:
  "py_strip (py_lower unit) \<in> set gallon_units \<Longrightarrow>
   py_strip (py_lower target_unit) \<in> set liter_units \<Longrightarrow>
   convert_to_metric val unit target_unit =
     Inr (Some (py_round (float_mul val (double_of_decimal 378541 5)) 2))"
  by (simp add: convert_to_metric_def Let_def convert_volume_gallons_to_liters_def
      GALLON_TO_LITER_def units_disjoint)

lemma float_div_returns: "\<not> float_le y (Fin 0 0) \<Longrightarrow> \<exists>q. float_div x y = Inr q"
  by (cases x; cases y) (auto simp: float_div_def float_le_def)

lemma rule_mpg:
  assumes "py_strip (py_lower unit) \<in> set mpg_units"
    "py_strip (py_lower target_unit) \<in> set l100km_units"
  shows "if float_le val (Fin 0 0)
         then convert_to_metric val unit target_unit = Inr (Some (Fin 0 0))
         else \<exists>q. float_div (double_of_decimal 235214 3) val = Inr q \<and>
                  convert_to_metric val unit target_unit = Inr (Some (py_round q 2))"
proof -
  have r: "convert_to_metric val unit target_unit =
      (case convert_fuel_consumption_mpg_to_l100km val of
         Inl e \<Rightarrow> Inl e | Inr v \<Rightarrow> Inr (Some v))"
    using assms by (simp add: convert_to_metric_def Let_def units_disjoint)
  show ?thesis
  proof (cases "float_le val (Fin 0 0)")
    case True
    then show ?thesis by (simp add: r convert_fuel_consumption_mpg_to_l100km_def)
  next
    case False
    then obtain q where "float_div (double_of_decimal 235214 3) val = Inr q"
      using float_div_returns by blast
    then show ?thesis using False by (simp add: r convert_fuel_consumption_mpg_to_l100km_def)
  qed
qed

lemma rule_same:
  "convert_to_metric val unit unit = Inr (Some val)"
  using source_not_target[of "py_strip (py_lower unit)"]
  by (auto simp: convert_to_metric_def Let_def)

lemma rule_none:
  "\<not> rule_applies (py_strip (py_lower unit)) (py_strip (py_lower target_unit)) \<Longrightarrow>
   py_strip (py_lower unit) \<noteq> py_strip (py_lower target_unit) \<Longrightarrow>
   convert_to_metric val unit target_unit = Inr None"
  by (auto simp: convert_to_metric_def Let_def rule_applies_def conversion_units_def)

text \<open>
  The claim C7 has \<open>convert_to_metric\<close> compute miles per gallon as 235.214 / mpg rounded
  to two decimals. At -5 mpg that is -47.04, and the function returns 0.0.
\<close>

theorem convert_mpg_counterexample:
  "convert_to_metric (double_of_decimal (- 5) 0) ''mpg'' ''L/100km'' = Inr (Some (Fin 0 0)) \<and>
   (case float_div (double_of_decimal 235214 3) (double_of_decimal (- 5) 0) of
      Inl e \<Rightarrow> False
    | Inr q \<Rightarrow> py_round q 2 = double_of_decimal (- 4704) 2 \<and> py_round q 2 \<noteq> Fin 0 0)"
  by code_simp

lemma convert_examples:
  "convert_to_metric (double_of_decimal 100 0) ''hp'' ''kW'' = Inr (Some (double_of_decimal 7457 2))"
  "convert_to_metric (double_of_decimal 440 0) ''lbs'' ''kg'' = Inr (Some (double_of_decimal 19958 2))"
  "convert_to_metric (double_of_decimal 100 0) ''mph'' ''km/h'' = Inr (Some (double_of_decimal 16093 2))"
  by code_simp+

text \<open>
  C7, as the code has it. With the two unit names lower-cased and stripped, each of the
  rules hp to kW, lb-ft to Nm, lb to kg, mph to km/h and US gal to L multiplies by its
  fixed factor and rounds to 2 decimals; in and ft to mm multiply by 25.4 and 304.8 and
  round to 1 decimal; mpg to L/100km is 0.0 where \<open>mpg <= 0\<close> holds and 235.214 / mpg
  rounded to 2 decimals otherwise; equal unit names return the value unchanged; and
  where no rule applies and the names differ the result is \<open>None\<close>. In particular 100 hp
  are 74.57 kW, 440 lbs are 199.58 kg and 100 mph are 160.93 km/h.
\<close>

theorem convert_to_metric_rules:
  "(let u = py_strip (py_lower unit);
        t = py_strip (py_lower target_unit);
        r = convert_to_metric val unit target_unit
    in (u \<in> set power_units \<and> t \<in> set kilowatt_units \<longrightarrow>
          r = Inr (Some (py_round (float_mul val (double_of_decimal 7457 4)) 2))) \<and>
       (u \<in> set torque_units \<and> t \<in> set newton_meter_units \<longrightarrow>
          r = Inr (Some (py_round (float_mul val (double_of_decimal 13558 4)) 2))) \<and>
       (u \<in> set inch_units \<and> t \<in> set millimeter_units \<longrightarrow>
          r = Inr (Some (py_round (float_mul val (double_of_decimal 254 1)) 1))) \<and>
       (u \<in> set foot_units \<and> t \<in> set millimeter_units \<longrightarrow>
          r = Inr (Some (py_round (float_mul val (double_of_decimal 3048 1)) 1))) \<and>
       (u \<in> set pound_units \<and> t \<in> set kilogram_units \<longrightarrow>
          r = Inr (Some (py_round (float_mul val (double_of_decimal 453592 6)) 2))) \<and>
       (u \<in> set mph_units \<and> t \<in> set kmh_units \<longrightarrow>
          r = Inr (Some (py_round (float_mul val (double_of_decimal 160934 5)) 2))) \<and>
       (u \<in> set gallon_units \<and> t \<in> set liter_units \<longrightarrow>
          r = Inr (Some (py_round (float_mul val (double_of_decimal 378541 5)) 2))) \<and>
       (u \<in> set mpg_units \<and> t \<in> set l100km_units \<longrightarrow>
          (if float_le val (Fin 0 0) then r = Inr (Some (Fin 0 0))
           else \<exists>q. float_div (double_of_decimal 235214 3) val = Inr q \<and>
                    r = Inr (Some (py_round q 2)))) \<and>
       (unit = target_unit \<longrightarrow> r = Inr (Some val)) \<and>
       (\<not> rule_applies u t \<and> u \<noteq> t \<longrightarrow> r = Inr None)) \<and>
   convert_to_metric (double_of_decimal 100 0) ''hp'' ''kW'' =
     Inr (Some (double_of_decimal 7457 2)) \<and>
   convert_to_metric (double_of_decimal 440 0) ''lbs'' ''kg'' =
     Inr (Some (double_of_decimal 19958 2)) \<and>
   convert_to_metric (double_of_decimal 100 0) ''mph'' ''km/h'' =
     Inr (Some (double_of_decimal 16093 2))"
proof -
  let ?u = "py_strip (py_lower unit)" and ?t = "py_strip (py_lower target_unit)"
  let ?r = "convert_to_metric val unit target_unit"
  have r1: "?u \<in> set power_units \<and> ?t \<in> set kilowatt_units \<longrightarrow>
      ?r = Inr (Some (py_round (float_mul val (double_of_decimal 7457 4)) 2))"
    using rule_power by blast
  have r2: "?u \<in> set torque_units \<and> ?t \<in> set newton_meter_units \<longrightarrow>
      ?r = Inr (Some (py_round (float_mul val (double_of_decimal 13558 4)) 2))"
    using rule_torque by blast
  have r3: "?u \<in> set inch_units \<and> ?t \<in> set millimeter_units \<longrightarrow>
      ?r = Inr (Some (py_round (float_mul val (double_of_decimal 254 1)) 1))"
    using rule_inch by blast
  have r4: "?u \<in> set foot_units \<and> ?t \<in> set millimeter_units \<longrightarrow>
      ?r = Inr (Some (py_round (float_mul val (double_of_decimal 3048 1)) 1))"
    using rule_foot by blast
  have r5: "?u \<in> set pound_units \<and> ?t \<in> set kilogram_units \<longrightarrow>
      ?r = Inr (Some (py_round (float_mul val (double_of_decimal 453592 6)) 2))"
    using rule_pound by blast
  have r6: "?u \<in> set mph_units \<and> ?t \<in> set kmh_units \<longrightarrow>
      ?r = Inr (Some (py_round (float_mul val (double_of_decimal 160934 5)) 2))"
    using rule_mph by blast
  have r7: "?u \<in> set gallon_units \<and> ?t \<in> set liter_units \<longrightarrow>
      ?r = Inr (Some (py_round (float_mul val (double_of_decimal 378541 5)) 2))"
    using rule_gallon by blast
  have r8: "?u \<in> set mpg_units \<and> ?t \<in> set l100km_units \<longrightarrow>
      (if float_le val (Fin 0 0) then ?r = Inr (Some (Fin 0 0))
       else \<exists>q. float_div (double_of_decimal 235214 3) val = Inr q \<and>
                ?r = Inr (Some (py_round q 2)))"
    using rule_mpg[of unit target_unit val] by blast
  have r9: "unit = target_unit \<longrightarrow> ?r = Inr (Some val)"
    using rule_same by blast
  have r10: "\<not> rule_applies ?u ?t \<and> ?u \<noteq> ?t \<longrightarrow> ?r = Inr None"
    using rule_none by blast
  show ?thesis
    unfolding Let_def
    by (intro conjI, rule r1, rule r2, rule r3, rule r4, rule r5, rule r6, rule r7, rule r8,
        rule r9, rule r10, (rule convert_examples)+)
qed

theorem convert_to_metric_rules_witness:
  "convert_to_metric (double_of_decimal 100 0) '' HP'' ''kW '' =
     Inr (Some (py_round (float_mul (double_of_decimal 100 0) (double_of_decimal 7457 4)) 2)) \<and>
   convert_to_metric (double_of_decimal 10 0) ''in'' ''mm'' =
     Inr (Some (py_round (float_mul (double_of_decimal 10 0) (double_of_decimal 254 1)) 1)) \<and>
   convert_to_metric (Fin 0 0) ''mpg'' ''L/100km'' = Inr (Some (Fin 0 0)) \<and>
   (\<exists>q. float_div (double_of_decimal 235214 3) (double_of_decimal 50 0) = Inr q \<and>
        convert_to_metric (double_of_decimal 50 0) ''mpg'' ''L/100km'' =
          Inr (Some (py_round q 2))) \<and>
   convert_to_metric (double_of_decimal 5 0) ''kg'' ''kg'' = Inr (Some (double_of_decimal 5 0)) \<and>
   convert_to_metric (double_of_decimal 5 0) ''kg'' ''lbs'' = Inr None"
proof -
  have u: "py_strip (py_lower '' HP'') \<in> set power_units"
    "py_strip (py_lower ''kW '') \<in> set kilowatt_units"
    "py_strip (py_lower ''in'') \<in> set inch_units"
    "py_strip (py_lower ''mm'') \<in> set millimeter_units"
    "py_strip (py_lower ''mpg'') \<in> set mpg_units"
    "py_strip (py_lower ''L/100km'') \<in> set l100km_units"
    by code_simp+
  have z: "float_le (Fin 0 0) (Fin 0 0)" "\<not> float_le (double_of_decimal 50 0) (Fin 0 0)"
    by code_simp+
  have n: "\<not> rule_applies (py_strip (py_lower ''kg'')) (py_strip (py_lower ''lbs''))"
    "py_strip (py_lower ''kg'') \<noteq> py_strip (py_lower ''lbs'')"
    by code_simp+
  have c1: "convert_to_metric (double_of_decimal 100 0) '' HP'' ''kW '' =
      Inr (Some (py_round (float_mul (double_of_decimal 100 0) (double_of_decimal 7457 4)) 2))"
    using convert_to_metric_rules[of "'' HP''" "''kW ''" "double_of_decimal 100 0"] u(1,2)
    unfolding Let_def by (elim conjE) simp
  have c2: "convert_to_metric (double_of_decimal 10 0) ''in'' ''mm'' =
      Inr (Some (py_round (float_mul (double_of_decimal 10 0) (double_of_decimal 254 1)) 1))"
    using convert_to_metric_rules[of "''in''" "''mm''" "double_of_decimal 10 0"] u(3,4)
    unfolding Let_def by (elim conjE) simp
  have c3: "convert_to_metric (Fin 0 0) ''mpg'' ''L/100km'' = Inr (Some (Fin 0 0))"
    using convert_to_metric_rules[of "''mpg''" "''L/100km''" "Fin 0 0"] u(5,6) z(1)
    unfolding Let_def by (elim conjE) simp
  have c4: "\<exists>q. float_div (double_of_decimal 235214 3) (double_of_decimal 50 0) = Inr q \<and>
      convert_to_metric (double_of_decimal 50 0) ''mpg'' ''L/100km'' = Inr (Some (py_round q 2))"
    using convert_to_metric_rules[of "''mpg''" "''L/100km''" "double_of_decimal 50 0"] u(5,6) z(2)
    unfolding Let_def by (elim conjE) simp
  have c5: "convert_to_metric (double_of_decimal 5 0) ''kg'' ''kg'' =
      Inr (Some (double_of_decimal 5 0))"
    using convert_to_metric_rules[of "''kg''" "''kg''" "double_of_decimal 5 0"]
    unfolding Let_def by (elim conjE) simp
  have c6: "convert_to_metric (double_of_decimal 5 0) ''kg'' ''lbs'' = Inr None"
    using convert_to_metric_rules[of "''kg''" "''lbs''" "double_of_decimal 5 0"] n
    unfolding Let_def by (elim conjE) simp
  show ?thesis
    using c1 c2 c3 c4 c5 c6 by (intro conjI)
qed

lemma py_remove_subset: "set (py_remove old s) \<subseteq> set s"
proof (induction old s rule: py_remove.induct)
  case (1 old)
  show ?case by simp
next
  case (2 old c cs)
  have "set (drop (length old - 1) cs) \<subseteq> set cs"
    by (rule set_drop_subset)
  with 2 show ?case by auto
qed

lemma py_strip_subset: "set (py_strip s) \<subseteq> set s"
proof -
  have "set (py_rstrip t) \<subseteq> set t" for t
    unfolding py_rstrip_def using set_dropWhileD[of _ py_isspace "rev t"] by auto
  moreover have "set (py_lstrip s) \<subseteq> set s"
    unfolding py_lstrip_def using set_dropWhileD[of _ py_isspace s] by auto
  ultimately show ?thesis unfolding py_strip_def by blast
qed

lemma search_value_unit_none:
  "\<forall>c\<in>set s. \<not> number_char c \<Longrightarrow> search_value_unit s = None"
  by (induction s) (simp_all add: match_value_unit_def Let_def)

lemma search_number_none:
  "\<forall>c\<in>set s. \<not> number_char c \<Longrightarrow> search_number s = None"
proof -
  assume a: "\<forall>c\<in>set s. \<not> number_char c"
  then have d: "dropWhile (\<lambda>c. \<not> number_char c) s = []"
    by simp
  show ?thesis unfolding search_number_def Let_def d by simp
qed

text \<open>
  A string without a digit and without a dot gives (None, None): neither pattern can
  match in it.
\<close>

lemma parse_spec_value_without_number:
  assumes "\<forall>c\<in>set text0. \<not> number_char c"
  shows "parse_spec_value text0 = Inr (None, None)"
proof -
  let ?t = "py_strip (py_remove ''approximately'' (py_remove ''approx.'' (py_remove ''~'' text0)))"
  have "set ?t \<subseteq> set text0"
    using py_strip_subset py_remove_subset by (meson subset_trans)
  then have n: "\<forall>c\<in>set ?t. \<not> number_char c"
    using assms by blast
  show ?thesis
    using search_value_unit_none[OF n] search_number_none[OF n]
    by (simp add: parse_spec_value_def Let_def)
qed

text \<open>
  C6. \<open>parse_spec_value\<close> returns (175.0, kg) for "150-200 kg", (450.0, lbs) for
  "~450 lbs" and (None, None) for "invalid". The claim is that it returns (None, None)
  for every string in which no number can be parsed; on "N.A.", a string with no number,
  the pattern takes the dot for the number and \<open>float\<close> raises \<open>ValueError\<close>.
\<close>

theorem parse_spec_value_examples:
  "parse_spec_value ''150-200 kg'' = Inr (Some (double_of_decimal 175 0), Some ''kg'') \<and>
   parse_spec_value ''~450 lbs'' = Inr (Some (double_of_decimal 450 0), Some ''lbs'') \<and>
   parse_spec_value ''invalid'' = Inr (None, None) \<and>
   parse_spec_value ''N.A.'' = Inl ValueError"
  by code_simp

section \<open>Properties of the URL normalisation\<close>

text \<open>
  C5. The claim is that \<open>normalize_url\<close> is idempotent. On a URL whose last path segment
  has parameters and a trailing slash, the first call removes the slash and the second
  call removes the parameters that the slash had protected; on a URL without a scheme
  every call puts another \<open>://\<close> in front. The two URLs of the first pair also differ
  only by a trailing slash and have different normal forms.
\<close>

theorem normalize_url_not_idempotent:
  "normalize_url check_bracketed_host ''https://ducati.com/monster;v=2/'' =
     Inr ''https://ducati.com/monster;v=2'' \<and>
   normalize_url check_bracketed_host ''https://ducati.com/monster;v=2'' =
     Inr ''https://ducati.com/monster'' \<and>
   normalize_url check_bracketed_host ''ducati.com/bikes'' = Inr ''://ducati.com/bikes'' \<and>
   normalize_url check_bracketed_host ''://ducati.com/bikes'' = Inr ''://://ducati.com/bikes''"
  by code_simp

end
